theory Spec2Isabelle
  imports Main
begin

section \<open>The bcons WebSocket client (\<^verbatim>\<open>src/bconsWS.js\<close>)\<close>

text \<open>
  The class \<^verbatim>\<open>BconsWS\<close> is embedded as a record of its fields together with the part of
  the JavaScript platform it talks to: the store of WebSocket objects it has created, the
  pending timers, and a chronological list of every observable effect (log calls, frames
  handed to the transport, timers set and cleared, invocations of the message sink).
  Methods and event handlers are functions from a state to the exception that escapes
  (if any) and the state reached; a state change made before a \<^verbatim>\<open>throw\<close> persists, as
  it does in JavaScript.

  Conventions of the embedding.
  \<^item> A JavaScript string is a \<open>string\<close>; the empty string is the only falsy one.
  \<^item> A WebSocket object is an entry of the store \<open>sockets\<close>; a reference to it is its
    index. \<open>readyState\<close> is 0 (connecting), 1 (open), 2 (closing) or 3 (closed).
  \<^item> The logging callbacks \<^verbatim>\<open>msgLog\<close> and \<^verbatim>\<open>errLog\<close> are capabilities that return
    normally; only the fact that one is installed is kept, and each call is recorded.
  \<^item> The message sink \<^verbatim>\<open>onMessage\<close> is a callback that returns normally or throws;
    it is a function from the payload to the exception it throws, if any.
  \<^item> \<^verbatim>\<open>JSON.parse\<close>, \<^verbatim>\<open>JSON.stringify\<close> and the \<^verbatim>\<open>WebSocket\<close> constructor belong to
    the platform and are parameters (\<open>platform\<close>).
\<close>

subsection \<open>Values\<close>

datatype exn = TypeError | SyntaxError | InvalidStateError | Thrown string

text \<open>The \<^verbatim>\<open>CloseEvent\<close> fields read by the close handler.\<close>

record close_event =
  wasClean :: bool
  code :: nat
  reason :: string

text \<open>
  What the sink receives: a parsed inbound frame, or the object
  \<^verbatim>\<open>{ errorCode: e.code, reason: e.reason }\<close> built by the close handler.
\<close>

datatype 'j payload = Parsed 'j | ErrorContent nat string

datatype 'j message = Text string | Structured 'j

datatype logarg = S string | N nat | CloseEv close_event | Caught exn | ErrorEv

text \<open>The two arrow functions handed to \<^verbatim>\<open>setTimeout\<close>.\<close>

datatype 'j timer_action = Reconnect | DeliverContent "'j payload"

datatype 'j effect =
    ConsoleLog "logarg list"
  | ConsoleError "logarg list"
  | MsgLog "logarg list"
  | ErrLog "logarg list"
  | NewWebSocket nat string
  | Transmit nat string
  | CloseRequested nat
  | SetTimeout nat nat "'j timer_action"
  | ClearTimeout nat
  | SinkCall "'j payload"
  | Raised exn

record socket =
  url :: string
  readyState :: nat

record 'j platform =
  JSON_parse :: "string \<Rightarrow> 'j option"
  JSON_stringify :: "'j \<Rightarrow> string option"
  WebSocket_rejects :: "string \<Rightarrow> exn option"

text \<open>
  \<open>JSON_parse P t = None\<close> when \<^verbatim>\<open>JSON.parse(t)\<close> throws (a SyntaxError);
  \<open>JSON_stringify P v = None\<close> when \<^verbatim>\<open>JSON.stringify(v)\<close> throws (a TypeError: a cyclic
  structure, a BigInt), and otherwise it is the text that reaches \<^verbatim>\<open>ws.send\<close>;
  \<open>WebSocket_rejects P u\<close> is the exception \<^verbatim>\<open>new WebSocket(u)\<close> throws for an address
  it does not accept.
\<close>

subsection \<open>The object and its environment\<close>

record 'j bcons =
  userToken :: string
  wsServer :: string
  device :: string
  errLog :: bool
  msgLog :: bool
  onMessage :: "('j payload \<Rightarrow> exn option) option"
  ws :: "nat option"
  reconnectCount :: nat
  reconnectTimerId :: "nat option"
  currentWsServer :: string
  sockets :: "socket list"
  timers :: "(nat \<times> nat \<times> 'j timer_action) list"
  timerSeq :: nat
  out :: "'j effect list"

text \<open>
  The first ten fields are the class properties, in the order of the source. \<open>sockets\<close>
  holds every WebSocket created so far, \<open>timers\<close> the pending timers as
  (id, delay in ms, callback), \<open>timerSeq\<close> the last timer id handed out (ids are positive),
  \<open>out\<close> the effects so far, oldest first.
\<close>

subsection \<open>Construction\<close>

text \<open>
  The options object: each recognised key is absent (\<open>None\<close>, \<^verbatim>\<open>typeof\<close> gives
  \<^verbatim>\<open>"undefined"\<close>) or present. A present callback key may hold \<^verbatim>\<open>null\<close>.
\<close>

record 'j options =
  opt_userToken :: "string option"
  opt_wsServer :: "string option"
  opt_device :: "string option"
  opt_onMessage :: "('j payload \<Rightarrow> exn option) option option"
  opt_msgLog :: "bool option"
  opt_errLog :: "bool option"

datatype 'j argument = Undefined | Null | Obj "'j options"

definition no_options :: "'j options" where
  "no_options = \<lparr>opt_userToken = None, opt_wsServer = None, opt_device = None,
     opt_onMessage = None, opt_msgLog = None, opt_errLog = None\<rparr>"

text \<open>The field initialisers of the class body.\<close>

definition defaults :: "'j bcons" where
  "defaults = \<lparr>userToken = [], wsServer = ''wss://bcons.dev/fry'', device = ''custom'',
     errLog = False, msgLog = False, onMessage = None, ws = None, reconnectCount = 0,
     reconnectTimerId = None, currentWsServer = ''wss://bcons.dev/fry'',
     sockets = [], timers = [], timerSeq = 0, out = []\<rparr>"

definition overwrite :: "'a option \<Rightarrow> 'a \<Rightarrow> 'a" where
  "overwrite opt dflt = (case opt of None \<Rightarrow> dflt | Some v \<Rightarrow> v)"

text \<open>
  \<^verbatim>\<open>options[key]\<close> throws a TypeError when \<^verbatim>\<open>options\<close> is \<^verbatim>\<open>undefined\<close> or
  \<^verbatim>\<open>null\<close>; the first key of the \<^verbatim>\<open>forEach\<close> already does.
\<close>

definition constructor :: "'j argument \<Rightarrow> exn + 'j bcons" where
  "constructor arg =
     (case arg of
        Undefined \<Rightarrow> Inl TypeError
      | Null \<Rightarrow> Inl TypeError
      | Obj opts \<Rightarrow>
          (let d = defaults;
               s = d\<lparr>userToken := overwrite (opt_userToken opts) (userToken d),
                     wsServer := overwrite (opt_wsServer opts) (wsServer d),
                     device := overwrite (opt_device opts) (device d),
                     onMessage := overwrite (opt_onMessage opts) (onMessage d),
                     msgLog := overwrite (opt_msgLog opts) (msgLog d),
                     errLog := overwrite (opt_errLog opts) (errLog d)\<rparr>
           in Inr (s\<lparr>currentWsServer := wsServer s\<rparr>)))"

subsection \<open>Logging\<close>

definition emit :: "'j effect \<Rightarrow> 'j bcons \<Rightarrow> 'j bcons" where
  "emit x s = s\<lparr>out := out s @ [x]\<rparr>"

definition log :: "logarg list \<Rightarrow> 'j bcons \<Rightarrow> 'j bcons" where
  "log params s = emit (if msgLog s then MsgLog params else ConsoleLog params) s"

definition logErr :: "logarg list \<Rightarrow> 'j bcons \<Rightarrow> 'j bcons" where
  "logErr params s = emit (if errLog s then ErrLog params else ConsoleError params) s"

subsection \<open>Platform primitives\<close>

text \<open>
  \<^verbatim>\<open>setTimeout\<close> hands out the next positive id and queues the callback;
  \<^verbatim>\<open>clearTimeout\<close> removes a pending timer and ignores an id that is not pending.
\<close>

definition setTimeout :: "'j timer_action \<Rightarrow> nat \<Rightarrow> 'j bcons \<Rightarrow> nat \<times> 'j bcons" where
  "setTimeout f ms s =
     (let t = Suc (timerSeq s)
      in (t, emit (SetTimeout t ms f) (s\<lparr>timers := timers s @ [(t, ms, f)], timerSeq := t\<rparr>)))"

definition clearTimeout :: "nat \<Rightarrow> 'j bcons \<Rightarrow> 'j bcons" where
  "clearTimeout t s = emit (ClearTimeout t) (s\<lparr>timers := filter (\<lambda>p. fst p \<noteq> t) (timers s)\<rparr>)"

text \<open>
  \<^verbatim>\<open>ws.send(data)\<close> of the platform: InvalidStateError while connecting, the frame goes out
  when open, and it is dropped without an error when closing or closed. A \<^verbatim>\<open>null\<close>
  receiver is a TypeError.
\<close>

definition ws_send :: "nat option \<Rightarrow> string \<Rightarrow> 'j bcons \<Rightarrow> exn option \<times> 'j bcons" where
  "ws_send r d s =
     (case r of
        None \<Rightarrow> (Some TypeError, s)
      | Some h \<Rightarrow>
          (if readyState (sockets s ! h) = 0 then (Some InvalidStateError, s)
           else if readyState (sockets s ! h) = 1 then (None, emit (Transmit h d) s)
           else (None, s)))"

text \<open>\<^verbatim>\<open>ws.close()\<close>: starts the closing handshake unless already closing or closed.\<close>

definition ws_close :: "nat \<Rightarrow> 'j bcons \<Rightarrow> 'j bcons" where
  "ws_close h s =
     (if readyState (sockets s ! h) < 2
      then emit (CloseRequested h)
             (s\<lparr>sockets := (sockets s)[h := (sockets s ! h)\<lparr>readyState := 2\<rparr>]\<rparr>)
      else s)"

subsection \<open>connect\<close>

text \<open>\<^verbatim>\<open>this.ws && this.ws.readyState != 3\<close>\<close>

definition busy :: "'j bcons \<Rightarrow> bool" where
  "busy s = (case ws s of None \<Rightarrow> False | Some h \<Rightarrow> readyState (sockets s ! h) \<noteq> 3)"

definition ws_readyState :: "'j bcons \<Rightarrow> nat" where
  "ws_readyState s = (case ws s of None \<Rightarrow> 0 | Some h \<Rightarrow> readyState (sockets s ! h))"

definition connect :: "'j platform \<Rightarrow> 'j bcons \<Rightarrow> exn option \<times> 'j bcons" where
  "connect P s =
     (if userToken s = [] then (None, logErr [S ''User token required for BconsWS init''] s)
      else if currentWsServer s = [] then
        (None, logErr [S ''No Fry server provided, aborting.''] s)
      else
        (let s1 = log [S ''Connecting to Fry''] s
         in if busy s1 then
              (None, log [S ''Websocket readyState is'', N (ws_readyState s1), S ''. Aborting''] s1)
            else
              (let s2 = log [S ''WS creation'', S (currentWsServer s1)] s1
               in case WebSocket_rejects P (currentWsServer s2) of
                    Some x \<Rightarrow> (Some x, s2)
                  | None \<Rightarrow>
                      (let h = length (sockets s2)
                       in (None, emit (NewWebSocket h (currentWsServer s2))
                            (s2\<lparr>sockets := sockets s2 @ [\<lparr>url = currentWsServer s2, readyState = 0\<rparr>],
                                ws := Some h\<rparr>))))))"

subsection \<open>The event handlers installed by connect\<close>

text \<open>
  The authentication frame is the template literal of the open handler: the token and the
  device are spliced into the text as they are.
\<close>

definition auth_frame :: "string \<Rightarrow> string \<Rightarrow> string" where
  \<open>auth_frame t d = ''{"e": "auth", "userToken":"'' @ t @ ''", "device":"'' @ d @ ''"}''\<close>

definition onopen :: "'j bcons \<Rightarrow> exn option \<times> 'j bcons" where
  "onopen s =
     (let s1 = log [S ''[ws] Connection established''] s;
          s2 = s1\<lparr>reconnectCount := 0\<rparr>
      in ws_send (ws s2) (auth_frame (userToken s2) (device s2)) s2)"

text \<open>
  \<^verbatim>\<open>++this.reconnectCount\<close> on a JavaScript number (a double): exact below \<open>2 ^ 53\<close>,
  where the sum rounds back to \<open>2 ^ 53\<close>.
\<close>

definition double_limit :: nat where
  "double_limit = 2 ^ 53"

definition incr :: "nat \<Rightarrow> nat" where
  "incr n = (if n < double_limit then n + 1 else n)"

text \<open>
  In the dirty branch, \<^verbatim>\<open>if (this.reconnectTimerId)\<close> is false for \<^verbatim>\<open>null\<close> and for the
  number 0.
\<close>

definition onclose_clean :: "'j platform \<Rightarrow> close_event \<Rightarrow> 'j bcons \<Rightarrow> exn option \<times> 'j bcons" where
  "onclose_clean P e s =
     (let s1 = log [CloseEv e] (log [S ''WS connection closed clean''] s);
          r = (if code e = 302
               then connect P (log [S ''Forwarding to'', S (reason e)]
                                 (s1\<lparr>currentWsServer := reason e\<rparr>))
               else (None, s1))
      in case fst r of
           Some x \<Rightarrow> (Some x, snd r)
         | None \<Rightarrow>
             (None,
              if 400 < code e \<and> code e < 500 then
                (case onMessage (snd r) of
                   None \<Rightarrow> snd r
                 | Some f \<Rightarrow>
                     snd (setTimeout (DeliverContent (ErrorContent (code e) (reason e))) 3000 (snd r)))
              else snd r))"

definition onclose_dirty :: "'j bcons \<Rightarrow> exn option \<times> 'j bcons" where
  "onclose_dirty s =
     (let s1 = log [S ''Disconnected, will try to reconnect. Retry count:'', N (reconnectCount s)] s;
          s2 = s1\<lparr>reconnectCount := incr (reconnectCount s1)\<rparr>;
          retry = (if reconnectCount s2 > 20 then 10000
                   else if reconnectCount s2 > 10 then 7000
                   else if reconnectCount s2 > 5 then 5000
                   else (1000::nat));
          switch = (reconnectCount s2 > 5 \<and> currentWsServer s2 \<noteq> wsServer s2);
          s3 = (if switch
                then (log [S ''Switching to'', S (wsServer s2)] s2)\<lparr>currentWsServer := wsServer s2\<rparr>
                else s2);
          retry' = (if switch then 1000 else retry);
          s4 = (case reconnectTimerId s3 of
                  None \<Rightarrow> s3
                | Some t \<Rightarrow> if t \<noteq> 0 then clearTimeout t s3 else s3);
          r = setTimeout Reconnect retry' s4
      in (None, (snd r)\<lparr>reconnectTimerId := Some (fst r)\<rparr>))"

definition onclose :: "'j platform \<Rightarrow> close_event \<Rightarrow> 'j bcons \<Rightarrow> exn option \<times> 'j bcons" where
  "onclose P e s = (if wasClean e then onclose_clean P e s else onclose_dirty s)"

definition onerror :: "'j bcons \<Rightarrow> exn option \<times> 'j bcons" where
  "onerror s = (None, logErr [S ''[ws]'', ErrorEv] s)"

text \<open>Calling the sink: \<^verbatim>\<open>this.onMessage(x)\<close>. Calling \<^verbatim>\<open>null\<close> is a TypeError.\<close>

definition call_sink :: "'j payload \<Rightarrow> 'j bcons \<Rightarrow> exn option \<times> 'j bcons" where
  "call_sink x s =
     (case onMessage s of
        None \<Rightarrow> (Some TypeError, s)
      | Some f \<Rightarrow> (f x, emit (SinkCall x) s))"

text \<open>The body of the \<^verbatim>\<open>try\<close> block of the message handler, then the handler.\<close>

definition onmessage_try :: "'j platform \<Rightarrow> string \<Rightarrow> 'j bcons \<Rightarrow> exn option \<times> 'j bcons" where
  "onmessage_try P d s =
     (case JSON_parse P d of
        None \<Rightarrow> (Some SyntaxError, s)
      | Some v \<Rightarrow>
          (case onMessage s of
             None \<Rightarrow> (None, s)
           | Some f \<Rightarrow> call_sink (Parsed v) s))"

definition onmessage :: "'j platform \<Rightarrow> string \<Rightarrow> 'j bcons \<Rightarrow> exn option \<times> 'j bcons" where
  "onmessage P d s =
     (case onmessage_try P d s of
        (Some x, s1) \<Rightarrow> (None, logErr [Caught x] s1)
      | (None, s1) \<Rightarrow> (None, s1))"

subsection \<open>send and disconnect\<close>

text \<open>\<^verbatim>\<open>this.ws.readyState\<close> with \<^verbatim>\<open>this.ws\<close> still \<^verbatim>\<open>null\<close> is a TypeError.\<close>

definition send :: "'j platform \<Rightarrow> 'j message \<Rightarrow> 'j bcons \<Rightarrow> exn option \<times> 'j bcons" where
  "send P m s =
     (case ws s of
        None \<Rightarrow> (Some TypeError, s)
      | Some h \<Rightarrow>
          (if readyState (sockets s ! h) \<noteq> 1 then (None, s)
           else
             (case m of
                Text t \<Rightarrow> ws_send (ws s) t s
              | Structured v \<Rightarrow>
                  (case JSON_stringify P v of
                     None \<Rightarrow> (Some TypeError, s)
                   | Some t \<Rightarrow> ws_send (ws s) t s))))"

definition disconnect :: "'j bcons \<Rightarrow> exn option \<times> 'j bcons" where
  "disconnect s =
     (let s1 = log [S ''Closing WS''] s
      in case ws s1 of None \<Rightarrow> (None, s1) | Some h \<Rightarrow> (None, ws_close h s1))"

subsection \<open>Events\<close>

text \<open>
  What can happen to the object: the transport raises one of its four events on a socket,
  a pending timer fires, or the caller invokes a public method. Every socket in the store
  was created by \<open>connect\<close> and carries the four handlers above, which read the object's
  fields (and \<^verbatim>\<open>this.ws\<close>) at the time they run.
\<close>

datatype 'j event =
    OnOpen nat
  | OnClose nat close_event
  | OnError nat
  | OnMessage nat string
  | TimerFires nat
  | CallConnect
  | CallSend "'j message"
  | CallDisconnect

text \<open>
  The platform's rules: a socket opens once, from the connecting phase; a closed socket
  raises no further event; frames arrive on an open or closing socket; only a pending
  timer fires.
\<close>

fun enabled :: "'j bcons \<Rightarrow> 'j event \<Rightarrow> bool" where
  "enabled s (OnOpen h) = (h < length (sockets s) \<and> readyState (sockets s ! h) = 0)"
| "enabled s (OnClose h e) = (h < length (sockets s) \<and> readyState (sockets s ! h) \<noteq> 3)"
| "enabled s (OnError h) = (h < length (sockets s) \<and> readyState (sockets s ! h) \<noteq> 3)"
| "enabled s (OnMessage h d) =
     (h < length (sockets s) \<and> (readyState (sockets s ! h) = 1 \<or> readyState (sockets s ! h) = 2))"
| "enabled s (TimerFires t) = (t \<in> fst ` set (timers s))"
| "enabled s CallConnect = True"
| "enabled s (CallSend m) = True"
| "enabled s CallDisconnect = True"

definition set_readyState :: "nat \<Rightarrow> nat \<Rightarrow> 'j bcons \<Rightarrow> 'j bcons" where
  "set_readyState h r s = s\<lparr>sockets := (sockets s)[h := (sockets s ! h)\<lparr>readyState := r\<rparr>]\<rparr>"

text \<open>An exception that leaves a handler, a timer callback or a method is recorded.\<close>

definition settle :: "exn option \<times> 'j bcons \<Rightarrow> 'j bcons" where
  "settle r = (case fst r of None \<Rightarrow> snd r | Some x \<Rightarrow> emit (Raised x) (snd r))"

definition run_timer :: "'j platform \<Rightarrow> 'j timer_action \<Rightarrow> 'j bcons \<Rightarrow> exn option \<times> 'j bcons" where
  "run_timer P a s = (case a of Reconnect \<Rightarrow> connect P s | DeliverContent c \<Rightarrow> call_sink c s)"

fun fire :: "'j platform \<Rightarrow> 'j bcons \<Rightarrow> 'j event \<Rightarrow> 'j bcons" where
  "fire P s (OnOpen h) = settle (onopen (set_readyState h 1 s))"
| "fire P s (OnClose h e) = settle (onclose P e (set_readyState h 3 s))"
| "fire P s (OnError h) = settle (onerror s)"
| "fire P s (OnMessage h d) = settle (onmessage P d s)"
| "fire P s (TimerFires t) =
     (case find (\<lambda>p. fst p = t) (timers s) of
        None \<Rightarrow> s
      | Some p \<Rightarrow>
          settle (run_timer P (snd (snd p)) (s\<lparr>timers := filter (\<lambda>p. fst p \<noteq> t) (timers s)\<rparr>)))"
| "fire P s CallConnect = settle (connect P s)"
| "fire P s (CallSend m) = settle (send P m s)"
| "fire P s CallDisconnect = settle (disconnect s)"

text \<open>A history: each event is possible in the state the earlier ones lead to.\<close>

fun run :: "'j platform \<Rightarrow> 'j bcons \<Rightarrow> 'j event list \<Rightarrow> 'j bcons option" where
  "run P s [] = Some s"
| "run P s (ev # evs) = (if enabled s ev then run P (fire P s ev) evs else None)"

subsection \<open>Reading the effects\<close>

text \<open>The effects added between an earlier state and a later one.\<close>

definition effects_since :: "'j bcons \<Rightarrow> 'j bcons \<Rightarrow> 'j effect list" where
  "effects_since s s' = drop (length (out s)) (out s')"

fun scheduled :: "'j effect list \<Rightarrow> (nat \<times> 'j timer_action) list" where
  "scheduled [] = []"
| "scheduled (SetTimeout t ms f # xs) = (ms, f) # scheduled xs"
| "scheduled (x # xs) = scheduled xs"

fun created :: "'j effect list \<Rightarrow> string list" where
  "created [] = []"
| "created (NewWebSocket h u # xs) = u # created xs"
| "created (x # xs) = created xs"

fun delivered :: "'j effect list \<Rightarrow> 'j payload list" where
  "delivered [] = []"
| "delivered (SinkCall c # xs) = c # delivered xs"
| "delivered (x # xs) = delivered xs"

fun transmitted :: "'j effect list \<Rightarrow> string list" where
  "transmitted [] = []"
| "transmitted (Transmit h d # xs) = d # transmitted xs"
| "transmitted (x # xs) = transmitted xs"

fun raised :: "'j effect list \<Rightarrow> exn list" where
  "raised [] = []"
| "raised (Raised x # xs) = x # raised xs"
| "raised (x # xs) = raised xs"

fun error_logged :: "'j effect list \<Rightarrow> logarg list list" where
  "error_logged [] = []"
| "error_logged (ErrLog ps # xs) = ps # error_logged xs"
| "error_logged (ConsoleError ps # xs) = ps # error_logged xs"
| "error_logged (x # xs) = error_logged xs"

subsection \<open>Reading the authentication frame as JSON\<close>

text \<open>
  The receiver of the frame parses it as JSON. The scanner below follows the JSON grammar
  (RFC 8259) for the texts that matter here: it accepts exactly the JSON objects all of
  whose members have string values, and returns the members in order, each key and value
  decoded to its code units; every other text (malformed, or an object with a value that
  is not a string) gives \<open>None\<close>. It reads the text once, left to right; \<open>mode\<close> is the
  place in the grammar, \<open>k\<close> the key of the member being read and \<open>a\<close> the decoded units
  of the string being read, last first. As in \<^verbatim>\<open>JSON.parse\<close>, a later member with the
  same key replaces the earlier one (\<open>parse_string_object\<close>).
\<close>

type_synonym jstring = "nat list"

definition units :: "string \<Rightarrow> jstring" where
  "units cs = map of_char cs"

datatype part = Key | Val

datatype mode =
    Start | First | InStr part | Esc part | Hex part nat nat
  | Colon | Value | Next | Member | Done

definition is_ws :: "char \<Rightarrow> bool" where
  "is_ws c = (c = CHR '' '' \<or> c = CHR 0x09 \<or> c = CHR 0x0A \<or> c = CHR 0x0D)"

definition unescape :: "char \<Rightarrow> nat option" where
  \<open>unescape c =
     (if c = CHR ''"'' then Some 0x22
      else if c = CHR 0x5C then Some 0x5C
      else if c = CHR ''/'' then Some 0x2F
      else if c = CHR ''b'' then Some 8
      else if c = CHR ''f'' then Some 12
      else if c = CHR ''n'' then Some 10
      else if c = CHR ''r'' then Some 13
      else if c = CHR ''t'' then Some 9
      else None)\<close>

definition hexval :: "char \<Rightarrow> nat option" where
  "hexval c =
     (let n = (of_char c :: nat)
      in if 48 \<le> n \<and> n \<le> 57 then Some (n - 48)
         else if 97 \<le> n \<and> n \<le> 102 then Some (n - 87)
         else if 65 \<le> n \<and> n \<le> 70 then Some (n - 55)
         else None)"

fun scan :: "mode \<Rightarrow> jstring \<Rightarrow> jstring \<Rightarrow> (jstring \<times> jstring) list \<Rightarrow> string
    \<Rightarrow> (jstring \<times> jstring) list option" where
  "scan m k a ms [] = (if m = Done then Some ms else None)"
| "scan Start k a ms (c # cs) =
     (if is_ws c then scan Start k a ms cs
      else if c = CHR ''{'' then scan First k a ms cs
      else None)"
| \<open>scan First k a ms (c # cs) =
     (if is_ws c then scan First k a ms cs
      else if c = CHR ''"'' then scan (InStr Key) k [] ms cs
      else if c = CHR ''}'' then scan Done k a ms cs
      else None)\<close>
| \<open>scan (InStr p) k a ms (c # cs) =
     (if c = CHR ''"'' then
        (case p of
           Key \<Rightarrow> scan Colon (rev a) [] ms cs
         | Val \<Rightarrow> scan Next [] [] (ms @ [(k, rev a)]) cs)
      else if c = CHR 0x5C then scan (Esc p) k a ms cs
      else if (of_char c :: nat) < 0x20 then None
      else scan (InStr p) k (of_char c # a) ms cs)\<close>
| "scan (Esc p) k a ms (c # cs) =
     (if c = CHR ''u'' then scan (Hex p 4 0) k a ms cs
      else (case unescape c of
              None \<Rightarrow> None
            | Some x \<Rightarrow> scan (InStr p) k (x # a) ms cs))"
| "scan (Hex p n v) k a ms (c # cs) =
     (case hexval c of
        None \<Rightarrow> None
      | Some d \<Rightarrow>
          (if n \<le> 1 then scan (InStr p) k ((16 * v + d) # a) ms cs
           else scan (Hex p (n - 1) (16 * v + d)) k a ms cs))"
| "scan Colon k a ms (c # cs) =
     (if is_ws c then scan Colon k a ms cs
      else if c = CHR '':'' then scan Value k a ms cs
      else None)"
| \<open>scan Value k a ms (c # cs) =
     (if is_ws c then scan Value k a ms cs
      else if c = CHR ''"'' then scan (InStr Val) k [] ms cs
      else None)\<close>
| "scan Next k a ms (c # cs) =
     (if is_ws c then scan Next k a ms cs
      else if c = CHR '','' then scan Member k a ms cs
      else if c = CHR ''}'' then scan Done k a ms cs
      else None)"
| \<open>scan Member k a ms (c # cs) =
     (if is_ws c then scan Member k a ms cs
      else if c = CHR ''"'' then scan (InStr Key) k [] ms cs
      else None)\<close>
| "scan Done k a ms (c # cs) = (if is_ws c then scan Done k a ms cs else None)"

definition parse_string_object :: "string \<Rightarrow> (jstring \<rightharpoonup> jstring) option" where
  "parse_string_object t = map_option (\<lambda>ms. map_of (rev ms)) (scan Start [] [] [] t)"

text \<open>A character that may stand unescaped inside a JSON string.\<close>

definition plain :: "char \<Rightarrow> bool" where
  \<open>plain c = (c \<noteq> CHR ''"'' \<and> c \<noteq> CHR 0x5C \<and> 0x20 \<le> (of_char c :: nat))\<close>

subsection \<open>Kinds of events and state predicates\<close>

fun is_open :: "'j event \<Rightarrow> bool" where
  "is_open (OnOpen h) = True"
| "is_open ev = False"

fun is_dirty_close :: "'j event \<Rightarrow> bool" where
  "is_dirty_close (OnClose h e) = (\<not> wasClean e)"
| "is_dirty_close ev = False"

text \<open>The redirect: a clean close with code 302.\<close>

fun is_redirect :: "'j event \<Rightarrow> bool" where
  "is_redirect (OnClose h e) = (wasClean e \<and> code e = 302)"
| "is_redirect ev = False"

text \<open>Timer ids are handed out in increasing order: no pending id is above the last one.\<close>

definition timers_fresh :: "'j bcons \<Rightarrow> bool" where
  "timers_fresh s = list_all (\<lambda>p. fst p \<le> timerSeq s) (timers s)"

text \<open>A socket is live in the connecting, open and closing phases.\<close>

definition live :: "socket \<Rightarrow> bool" where
  "live k = (readyState k \<noteq> 3)"

text \<open>
  The reference \<^verbatim>\<open>this.ws\<close> points into the store, and every live socket of the store is
  the one \<^verbatim>\<open>this.ws\<close> points to.
\<close>

definition handle_ok :: "'j bcons \<Rightarrow> bool" where
  "handle_ok s =
     ((\<forall>h. ws s = Some h \<longrightarrow> h < length (sockets s)) \<and>
      (\<forall>h < length (sockets s). live (sockets s ! h) \<longrightarrow> ws s = Some h))"

text \<open>
  The delay the dirty branch hands to \<^verbatim>\<open>setTimeout\<close>, as a function of the state the
  close event finds (\<open>dirty_close_out\<close> below shows that it is).
\<close>

definition retry_delay :: "'j bcons \<Rightarrow> nat" where
  "retry_delay s =
     (let n = incr (reconnectCount s)
      in if 5 < n \<and> currentWsServer s \<noteq> wsServer s then 1000
         else if 20 < n then 10000 else if 10 < n then 7000 else if 5 < n then 5000 else 1000)"

text \<open>The conditions under which \<open>connect\<close> reaches \<^verbatim>\<open>new WebSocket\<close> and it succeeds.\<close>

definition proceeds :: "'j platform \<Rightarrow> 'j bcons \<Rightarrow> bool" where
  "proceeds P s =
     (userToken s \<noteq> [] \<and> currentWsServer s \<noteq> [] \<and> \<not> busy s \<and>
      WebSocket_rejects P (currentWsServer s) = None)"

subsection \<open>A concrete client\<close>

text \<open>
  A platform whose parser accepts the text \<open>7\<close> only, a sink that returns normally, a
  sink that throws, and a client with a token whose socket is open.
\<close>

definition demo_platform :: "nat platform" where
  "demo_platform =
     \<lparr>JSON_parse = (\<lambda>t. if t = ''7'' then Some 7 else None),
      JSON_stringify = (\<lambda>v. Some ''7''),
      WebSocket_rejects = (\<lambda>u. None)\<rparr>"

definition quiet_sink :: "nat payload \<Rightarrow> exn option" where
  "quiet_sink c = None"

definition throwing_sink :: "nat payload \<Rightarrow> exn option" where
  "throwing_sink c = Some (Thrown ''boom'')"

definition demo_options :: "nat options" where
  "demo_options = no_options\<lparr>opt_userToken := Some ''tok'', opt_onMessage := Some (Some quiet_sink)\<rparr>"

definition demo_new :: "nat bcons" where
  "demo_new = defaults\<lparr>userToken := ''tok'', onMessage := Some quiet_sink\<rparr>"

definition demo_open :: "nat bcons" where
  "demo_open = demo_new\<lparr>ws := Some 0, sockets := [\<lparr>url = ''wss://bcons.dev/fry'', readyState = 1\<rparr>]\<rparr>"

definition rejection :: close_event where
  "rejection = \<lparr>wasClean = True, code = 401, reason = ''denied''\<rparr>"

definition redirection :: close_event where
  "redirection = \<lparr>wasClean = True, code = 302, reason = ''wss://other.example/fry''\<rparr>"

definition abrupt :: close_event where
  "abrupt = \<lparr>wasClean = False, code = 1006, reason = []\<rparr>"

text \<open>The same client on a failover address after five dirty closes, and with a sink that throws.\<close>

definition demo_failover :: "nat bcons" where
  "demo_failover = demo_open\<lparr>reconnectCount := 5, currentWsServer := ''wss://other.example/fry''\<rparr>"

definition demo_throwing :: "nat bcons" where
  "demo_throwing = demo_open\<lparr>onMessage := Some throwing_sink\<rparr>"

text \<open>A client whose device label holds a double quote, with its socket still connecting.\<close>

definition demo_connecting :: "nat bcons" where
  \<open>demo_connecting =
     demo_new\<lparr>device := ''a"b'', ws := Some 0,
               sockets := [\<lparr>url = ''wss://bcons.dev/fry'', readyState = 0\<rparr>]\<rparr>\<close>

section \<open>Properties\<close>

subsection \<open>What each primitive and handler leaves alone\<close>

lemma emit_fields [simp]:
  "userToken (emit x s) = userToken s" "wsServer (emit x s) = wsServer s"
  "device (emit x s) = device s" "errLog (emit x s) = errLog s" "msgLog (emit x s) = msgLog s"
  "onMessage (emit x s) = onMessage s" "ws (emit x s) = ws s"
  "reconnectCount (emit x s) = reconnectCount s"
  "reconnectTimerId (emit x s) = reconnectTimerId s"
  "currentWsServer (emit x s) = currentWsServer s" "sockets (emit x s) = sockets s"
  "timers (emit x s) = timers s" "timerSeq (emit x s) = timerSeq s"
  "out (emit x s) = out s @ [x]"
  by (simp_all add: emit_def)

lemma log_fields [simp]:
  "userToken (log ps s) = userToken s" "wsServer (log ps s) = wsServer s"
  "device (log ps s) = device s" "errLog (log ps s) = errLog s" "msgLog (log ps s) = msgLog s"
  "onMessage (log ps s) = onMessage s" "ws (log ps s) = ws s"
  "reconnectCount (log ps s) = reconnectCount s"
  "reconnectTimerId (log ps s) = reconnectTimerId s"
  "currentWsServer (log ps s) = currentWsServer s" "sockets (log ps s) = sockets s"
  "timers (log ps s) = timers s" "timerSeq (log ps s) = timerSeq s"
  "out (log ps s) = out s @ [if msgLog s then MsgLog ps else ConsoleLog ps]"
  by (simp_all add: log_def)

lemma logErr_fields [simp]:
  "userToken (logErr ps s) = userToken s" "wsServer (logErr ps s) = wsServer s"
  "device (logErr ps s) = device s" "errLog (logErr ps s) = errLog s"
  "msgLog (logErr ps s) = msgLog s"
  "onMessage (logErr ps s) = onMessage s" "ws (logErr ps s) = ws s"
  "reconnectCount (logErr ps s) = reconnectCount s"
  "reconnectTimerId (logErr ps s) = reconnectTimerId s"
  "currentWsServer (logErr ps s) = currentWsServer s" "sockets (logErr ps s) = sockets s"
  "timers (logErr ps s) = timers s" "timerSeq (logErr ps s) = timerSeq s"
  "out (logErr ps s) = out s @ [if errLog s then ErrLog ps else ConsoleError ps]"
  by (simp_all add: logErr_def)

lemma setTimeout_fields [simp]:
  "fst (setTimeout f ms s) = Suc (timerSeq s)"
  "userToken (snd (setTimeout f ms s)) = userToken s"
  "wsServer (snd (setTimeout f ms s)) = wsServer s"
  "device (snd (setTimeout f ms s)) = device s"
  "errLog (snd (setTimeout f ms s)) = errLog s"
  "msgLog (snd (setTimeout f ms s)) = msgLog s"
  "onMessage (snd (setTimeout f ms s)) = onMessage s"
  "ws (snd (setTimeout f ms s)) = ws s"
  "reconnectCount (snd (setTimeout f ms s)) = reconnectCount s"
  "reconnectTimerId (snd (setTimeout f ms s)) = reconnectTimerId s"
  "currentWsServer (snd (setTimeout f ms s)) = currentWsServer s"
  "sockets (snd (setTimeout f ms s)) = sockets s"
  "timers (snd (setTimeout f ms s)) = timers s @ [(Suc (timerSeq s), ms, f)]"
  "timerSeq (snd (setTimeout f ms s)) = Suc (timerSeq s)"
  "out (snd (setTimeout f ms s)) = out s @ [SetTimeout (Suc (timerSeq s)) ms f]"
  by (simp_all add: setTimeout_def Let_def)

lemma clearTimeout_fields [simp]:
  "userToken (clearTimeout t s) = userToken s" "wsServer (clearTimeout t s) = wsServer s"
  "device (clearTimeout t s) = device s" "errLog (clearTimeout t s) = errLog s"
  "msgLog (clearTimeout t s) = msgLog s"
  "onMessage (clearTimeout t s) = onMessage s" "ws (clearTimeout t s) = ws s"
  "reconnectCount (clearTimeout t s) = reconnectCount s"
  "reconnectTimerId (clearTimeout t s) = reconnectTimerId s"
  "currentWsServer (clearTimeout t s) = currentWsServer s"
  "sockets (clearTimeout t s) = sockets s"
  "timers (clearTimeout t s) = filter (\<lambda>p. fst p \<noteq> t) (timers s)"
  "timerSeq (clearTimeout t s) = timerSeq s"
  "out (clearTimeout t s) = out s @ [ClearTimeout t]"
  by (simp_all add: clearTimeout_def)

lemma set_readyState_fields [simp]:
  "userToken (set_readyState h r s) = userToken s"
  "wsServer (set_readyState h r s) = wsServer s"
  "device (set_readyState h r s) = device s" "errLog (set_readyState h r s) = errLog s"
  "msgLog (set_readyState h r s) = msgLog s"
  "onMessage (set_readyState h r s) = onMessage s" "ws (set_readyState h r s) = ws s"
  "reconnectCount (set_readyState h r s) = reconnectCount s"
  "reconnectTimerId (set_readyState h r s) = reconnectTimerId s"
  "currentWsServer (set_readyState h r s) = currentWsServer s"
  "sockets (set_readyState h r s) = (sockets s)[h := (sockets s ! h)\<lparr>readyState := r\<rparr>]"
  "timers (set_readyState h r s) = timers s"
  "timerSeq (set_readyState h r s) = timerSeq s"
  "out (set_readyState h r s) = out s"
  by (simp_all add: set_readyState_def)

lemma ws_close_fields [simp]:
  "userToken (ws_close h s) = userToken s" "wsServer (ws_close h s) = wsServer s"
  "device (ws_close h s) = device s" "errLog (ws_close h s) = errLog s"
  "msgLog (ws_close h s) = msgLog s"
  "onMessage (ws_close h s) = onMessage s" "ws (ws_close h s) = ws s"
  "reconnectCount (ws_close h s) = reconnectCount s"
  "reconnectTimerId (ws_close h s) = reconnectTimerId s"
  "currentWsServer (ws_close h s) = currentWsServer s"
  "timers (ws_close h s) = timers s" "timerSeq (ws_close h s) = timerSeq s"
  by (simp_all add: ws_close_def)

lemma ws_send_fields [simp]:
  "userToken (snd (ws_send r d s)) = userToken s" "wsServer (snd (ws_send r d s)) = wsServer s"
  "device (snd (ws_send r d s)) = device s" "errLog (snd (ws_send r d s)) = errLog s"
  "msgLog (snd (ws_send r d s)) = msgLog s"
  "onMessage (snd (ws_send r d s)) = onMessage s" "ws (snd (ws_send r d s)) = ws s"
  "reconnectCount (snd (ws_send r d s)) = reconnectCount s"
  "reconnectTimerId (snd (ws_send r d s)) = reconnectTimerId s"
  "currentWsServer (snd (ws_send r d s)) = currentWsServer s"
  "sockets (snd (ws_send r d s)) = sockets s"
  "timers (snd (ws_send r d s)) = timers s" "timerSeq (snd (ws_send r d s)) = timerSeq s"
  by (simp_all add: ws_send_def split: option.splits)

lemma call_sink_fields [simp]:
  "userToken (snd (call_sink c s)) = userToken s" "wsServer (snd (call_sink c s)) = wsServer s"
  "device (snd (call_sink c s)) = device s" "errLog (snd (call_sink c s)) = errLog s"
  "msgLog (snd (call_sink c s)) = msgLog s"
  "onMessage (snd (call_sink c s)) = onMessage s" "ws (snd (call_sink c s)) = ws s"
  "reconnectCount (snd (call_sink c s)) = reconnectCount s"
  "reconnectTimerId (snd (call_sink c s)) = reconnectTimerId s"
  "currentWsServer (snd (call_sink c s)) = currentWsServer s"
  "sockets (snd (call_sink c s)) = sockets s"
  "timers (snd (call_sink c s)) = timers s" "timerSeq (snd (call_sink c s)) = timerSeq s"
  by (simp_all add: call_sink_def split: option.splits)

lemma settle_fields [simp]:
  "userToken (settle r) = userToken (snd r)" "wsServer (settle r) = wsServer (snd r)"
  "device (settle r) = device (snd r)" "errLog (settle r) = errLog (snd r)"
  "msgLog (settle r) = msgLog (snd r)"
  "onMessage (settle r) = onMessage (snd r)" "ws (settle r) = ws (snd r)"
  "reconnectCount (settle r) = reconnectCount (snd r)"
  "reconnectTimerId (settle r) = reconnectTimerId (snd r)"
  "currentWsServer (settle r) = currentWsServer (snd r)"
  "sockets (settle r) = sockets (snd r)"
  "timers (settle r) = timers (snd r)" "timerSeq (settle r) = timerSeq (snd r)"
  by (simp_all add: settle_def split: option.splits)

lemma connect_fields [simp]:
  "userToken (snd (connect P s)) = userToken s" "wsServer (snd (connect P s)) = wsServer s"
  "device (snd (connect P s)) = device s" "errLog (snd (connect P s)) = errLog s"
  "msgLog (snd (connect P s)) = msgLog s"
  "onMessage (snd (connect P s)) = onMessage s"
  "reconnectCount (snd (connect P s)) = reconnectCount s"
  "reconnectTimerId (snd (connect P s)) = reconnectTimerId s"
  "currentWsServer (snd (connect P s)) = currentWsServer s"
  "timers (snd (connect P s)) = timers s" "timerSeq (snd (connect P s)) = timerSeq s"
  by (simp_all add: connect_def Let_def split: option.splits)

lemma incr_ge: "n \<le> incr n" and incr_pos: "0 < incr n"
  by (simp_all add: incr_def double_limit_def)

lemma config_onopen [simp]:
  "userToken (snd (onopen s)) = userToken s" "wsServer (snd (onopen s)) = wsServer s"
  "device (snd (onopen s)) = device s" "onMessage (snd (onopen s)) = onMessage s"
  "errLog (snd (onopen s)) = errLog s" "msgLog (snd (onopen s)) = msgLog s"
  "currentWsServer (snd (onopen s)) = currentWsServer s"
  "ws (snd (onopen s)) = ws s" "sockets (snd (onopen s)) = sockets s"
  "timers (snd (onopen s)) = timers s" "timerSeq (snd (onopen s)) = timerSeq s"
  "reconnectTimerId (snd (onopen s)) = reconnectTimerId s"
  "reconnectCount (snd (onopen s)) = 0"
  by (simp_all add: onopen_def Let_def)

lemma config_onclose_clean [simp]:
  "userToken (snd (onclose_clean P e s)) = userToken s"
  "wsServer (snd (onclose_clean P e s)) = wsServer s"
  "device (snd (onclose_clean P e s)) = device s"
  "onMessage (snd (onclose_clean P e s)) = onMessage s"
  "errLog (snd (onclose_clean P e s)) = errLog s"
  "msgLog (snd (onclose_clean P e s)) = msgLog s"
  "reconnectCount (snd (onclose_clean P e s)) = reconnectCount s"
  "reconnectTimerId (snd (onclose_clean P e s)) = reconnectTimerId s"
  "currentWsServer (snd (onclose_clean P e s)) = (if code e = 302 then reason e else currentWsServer s)"
  by (simp_all add: onclose_clean_def Let_def split: option.splits)

lemma config_onclose_dirty [simp]:
  "userToken (snd (onclose_dirty s)) = userToken s"
  "wsServer (snd (onclose_dirty s)) = wsServer s"
  "device (snd (onclose_dirty s)) = device s"
  "onMessage (snd (onclose_dirty s)) = onMessage s"
  "errLog (snd (onclose_dirty s)) = errLog s"
  "msgLog (snd (onclose_dirty s)) = msgLog s"
  "ws (snd (onclose_dirty s)) = ws s"
  "sockets (snd (onclose_dirty s)) = sockets s"
  "reconnectCount (snd (onclose_dirty s)) = incr (reconnectCount s)"
  "reconnectTimerId (snd (onclose_dirty s)) = Some (Suc (timerSeq s))"
  "timerSeq (snd (onclose_dirty s)) = Suc (timerSeq s)"
  "currentWsServer (snd (onclose_dirty s)) =
     (if 5 < incr (reconnectCount s) then wsServer s else currentWsServer s)"
  by (simp_all add: onclose_dirty_def Let_def split: option.splits)

lemma config_onerror [simp]:
  "userToken (snd (onerror s)) = userToken s" "wsServer (snd (onerror s)) = wsServer s"
  "device (snd (onerror s)) = device s" "onMessage (snd (onerror s)) = onMessage s"
  "errLog (snd (onerror s)) = errLog s" "msgLog (snd (onerror s)) = msgLog s"
  "currentWsServer (snd (onerror s)) = currentWsServer s"
  "ws (snd (onerror s)) = ws s" "sockets (snd (onerror s)) = sockets s"
  "timers (snd (onerror s)) = timers s" "timerSeq (snd (onerror s)) = timerSeq s"
  "reconnectTimerId (snd (onerror s)) = reconnectTimerId s"
  "reconnectCount (snd (onerror s)) = reconnectCount s"
  by (simp_all add: onerror_def)

lemma config_onmessage [simp]:
  "userToken (snd (onmessage P d s)) = userToken s" "wsServer (snd (onmessage P d s)) = wsServer s"
  "device (snd (onmessage P d s)) = device s" "onMessage (snd (onmessage P d s)) = onMessage s"
  "errLog (snd (onmessage P d s)) = errLog s" "msgLog (snd (onmessage P d s)) = msgLog s"
  "currentWsServer (snd (onmessage P d s)) = currentWsServer s"
  "ws (snd (onmessage P d s)) = ws s" "sockets (snd (onmessage P d s)) = sockets s"
  "timers (snd (onmessage P d s)) = timers s" "timerSeq (snd (onmessage P d s)) = timerSeq s"
  "reconnectTimerId (snd (onmessage P d s)) = reconnectTimerId s"
  "reconnectCount (snd (onmessage P d s)) = reconnectCount s"
  by (simp_all add: onmessage_def onmessage_try_def call_sink_def split: option.splits prod.splits)

lemma config_send [simp]:
  "userToken (snd (send P m s)) = userToken s" "wsServer (snd (send P m s)) = wsServer s"
  "device (snd (send P m s)) = device s" "onMessage (snd (send P m s)) = onMessage s"
  "errLog (snd (send P m s)) = errLog s" "msgLog (snd (send P m s)) = msgLog s"
  "currentWsServer (snd (send P m s)) = currentWsServer s"
  "ws (snd (send P m s)) = ws s" "sockets (snd (send P m s)) = sockets s"
  "timers (snd (send P m s)) = timers s" "timerSeq (snd (send P m s)) = timerSeq s"
  "reconnectTimerId (snd (send P m s)) = reconnectTimerId s"
  "reconnectCount (snd (send P m s)) = reconnectCount s"
  by (simp_all add: send_def split: option.splits message.splits)

lemma config_disconnect [simp]:
  "userToken (snd (disconnect s)) = userToken s" "wsServer (snd (disconnect s)) = wsServer s"
  "device (snd (disconnect s)) = device s" "onMessage (snd (disconnect s)) = onMessage s"
  "errLog (snd (disconnect s)) = errLog s" "msgLog (snd (disconnect s)) = msgLog s"
  "currentWsServer (snd (disconnect s)) = currentWsServer s"
  "ws (snd (disconnect s)) = ws s"
  "timers (snd (disconnect s)) = timers s" "timerSeq (snd (disconnect s)) = timerSeq s"
  "reconnectTimerId (snd (disconnect s)) = reconnectTimerId s"
  "reconnectCount (snd (disconnect s)) = reconnectCount s"
  by (simp_all add: disconnect_def Let_def split: option.splits)

lemma config_run_timer [simp]:
  "userToken (snd (run_timer P a s)) = userToken s" "wsServer (snd (run_timer P a s)) = wsServer s"
  "device (snd (run_timer P a s)) = device s" "onMessage (snd (run_timer P a s)) = onMessage s"
  "errLog (snd (run_timer P a s)) = errLog s" "msgLog (snd (run_timer P a s)) = msgLog s"
  "currentWsServer (snd (run_timer P a s)) = currentWsServer s"
  "timers (snd (run_timer P a s)) = timers s" "timerSeq (snd (run_timer P a s)) = timerSeq s"
  "reconnectTimerId (snd (run_timer P a s)) = reconnectTimerId s"
  "reconnectCount (snd (run_timer P a s)) = reconnectCount s"
  by (simp_all add: run_timer_def split: timer_action.splits)

lemma fire_config [simp]:
  "userToken (fire P s ev) = userToken s" "wsServer (fire P s ev) = wsServer s"
  "device (fire P s ev) = device s" "onMessage (fire P s ev) = onMessage s"
  "errLog (fire P s ev) = errLog s" "msgLog (fire P s ev) = msgLog s"
  by (cases ev; simp add: onclose_def split: option.splits)+

lemma fire_reconnectCount:
  "reconnectCount (fire P s ev) =
     (if is_open ev then 0
      else if is_dirty_close ev then incr (reconnectCount s)
      else reconnectCount s)"
  by (cases ev) (simp_all add: onclose_def split: option.splits)

lemma fire_currentWsServer:
  "\<not> is_redirect ev \<Longrightarrow> currentWsServer s = wsServer s \<Longrightarrow>
   currentWsServer (fire P s ev) = wsServer s"
  by (cases ev) (simp_all add: onclose_def split: option.splits)

subsection \<open>Effects of one event\<close>

lemma effects_since_append: "out s' = out s @ xs \<Longrightarrow> effects_since s s' = xs"
  by (simp add: effects_since_def)

lemma settle_None: "fst r = None \<Longrightarrow> settle r = snd r"
  by (simp add: settle_def)

lemma rejected_close:
  assumes "wasClean e" "400 < code e" "code e < 500" "onMessage s = Some f"
  shows "fire P s (OnClose h e) =
    snd (setTimeout (DeliverContent (ErrorContent (code e) (reason e))) 3000
          (log [CloseEv e] (log [S ''WS connection closed clean''] (set_readyState h 3 s))))"
  using assms by (simp add: onclose_def onclose_clean_def settle_def Let_def)

lemma find_fresh:
  "\<forall>p \<in> set xs. fst p \<noteq> t \<Longrightarrow> find (\<lambda>p. fst p = t) (xs @ [(t, y)]) = Some (t, y)"
  by (induction xs) auto

lemma filter_fresh:
  "\<forall>p \<in> set xs. fst p \<noteq> t \<Longrightarrow> filter (\<lambda>p. fst p \<noteq> t) xs = xs"
  by (induction xs) auto

subsection \<open>At most one live socket\<close>

lemma handle_ok_bound: "handle_ok s \<Longrightarrow> ws s = Some h \<Longrightarrow> h < length (sockets s)"
  unfolding handle_ok_def by blast

lemma handle_ok_live:
  "handle_ok s \<Longrightarrow> h < length (sockets s) \<Longrightarrow> live (sockets s ! h) \<Longrightarrow> ws s = Some h"
  unfolding handle_ok_def by blast

lemma handle_okI:
  "(\<And>h. ws s = Some h \<Longrightarrow> h < length (sockets s)) \<Longrightarrow>
   (\<And>h. h < length (sockets s) \<Longrightarrow> live (sockets s ! h) \<Longrightarrow> ws s = Some h) \<Longrightarrow>
   handle_ok s"
  unfolding handle_ok_def by blast

lemma handle_ok_cong:
  assumes "handle_ok s" "sockets s' = sockets s" "ws s' = ws s"
  shows "handle_ok s'"
  using assms(1) unfolding handle_ok_def assms(2,3) .

lemma busy_log [simp]: "busy (log ps s) = busy s"
  by (simp add: busy_def split: option.splits)

lemma connect_store:
  "(sockets (snd (connect P s)) = sockets s \<and> ws (snd (connect P s)) = ws s) \<or>
   (\<not> busy s \<and>
    sockets (snd (connect P s)) = sockets s @ [\<lparr>url = currentWsServer s, readyState = 0\<rparr>] \<and>
    ws (snd (connect P s)) = Some (length (sockets s)))"
  by (simp add: connect_def Let_def split: option.splits)

lemma handle_ok_idle:
  assumes "handle_ok s" "\<not> busy s" "h < length (sockets s)"
  shows "\<not> live (sockets s ! h)"
proof
  assume l: "live (sockets s ! h)"
  have "ws s = Some h" using assms(1,3) l by (rule handle_ok_live)
  then have "busy s" using l by (simp add: busy_def live_def)
  then show False using assms(2) by simp
qed

lemma handle_ok_connect:
  assumes "handle_ok s"
  shows "handle_ok (snd (connect P s))"
proof -
  let ?s = "snd (connect P s)"
  from connect_store [of P s] show ?thesis
  proof
    assume "sockets ?s = sockets s \<and> ws ?s = ws s"
    then show ?thesis using assms by (blast intro: handle_ok_cong)
  next
    assume a: "\<not> busy s \<and>
      sockets ?s = sockets s @ [\<lparr>url = currentWsServer s, readyState = 0\<rparr>] \<and>
      ws ?s = Some (length (sockets s))"
    have "ws ?s = Some h" if "h < length (sockets ?s)" "live (sockets ?s ! h)" for h
    proof (cases "h < length (sockets s)")
      case True
      then have "\<not> live (sockets s ! h)" using assms a by (simp add: handle_ok_idle)
      then show ?thesis using that True a by (simp add: nth_append)
    next
      case False
      then have "h = length (sockets s)" using that(1) a by simp
      then show ?thesis using a by simp
    qed
    moreover have "h < length (sockets ?s)" if "ws ?s = Some h" for h
      using that a by simp
    ultimately show ?thesis by (blast intro: handle_okI)
  qed
qed

lemma handle_ok_set_readyState:
  assumes "handle_ok s" "h < length (sockets s)" "live (sockets s ! h)"
  shows "handle_ok (set_readyState h r s)"
proof (rule handle_okI)
  fix k
  assume "ws (set_readyState h r s) = Some k"
  then have "ws s = Some k" by simp
  with assms(1) have "k < length (sockets s)" by (rule handle_ok_bound)
  then show "k < length (sockets (set_readyState h r s))" by simp
next
  fix k
  assume k: "k < length (sockets (set_readyState h r s))"
    and l: "live (sockets (set_readyState h r s) ! k)"
  have w: "ws s = Some h" using assms by (rule handle_ok_live)
  have kl: "k < length (sockets s)" using k by simp
  have "ws s = Some k"
  proof (cases "k = h")
    case True
    then show ?thesis using w by simp
  next
    case False
    have "sockets (set_readyState h r s) ! k = sockets s ! k"
      using False by simp
    then have "live (sockets s ! k)" using l by simp
    with assms(1) kl show ?thesis by (rule handle_ok_live)
  qed
  then show "ws (set_readyState h r s) = Some k" by simp
qed

lemma handle_ok_ws_close:
  assumes "handle_ok s" "ws s = Some h"
  shows "handle_ok (ws_close h s)"
proof (cases "readyState (sockets s ! h) < 2")
  case False
  then show ?thesis using assms(1) by (simp add: ws_close_def)
next
  case True
  have h: "h < length (sockets s)" using assms by (rule handle_ok_bound)
  have l: "live (sockets s ! h)" using True by (simp add: live_def)
  have "handle_ok (set_readyState h 2 s)"
    using assms(1) h l by (rule handle_ok_set_readyState)
  then show ?thesis
    by (rule handle_ok_cong) (simp_all add: ws_close_def True)
qed

lemma handle_ok_onclose_clean:
  assumes "handle_ok s"
  shows "handle_ok (snd (onclose_clean P e s))"
proof -
  let ?s1 = "log [CloseEv e] (log [S ''WS connection closed clean''] s)"
  let ?s2 = "log [S ''Forwarding to'', S (reason e)] (?s1\<lparr>currentWsServer := reason e\<rparr>)"
  let ?r = "if code e = 302 then connect P ?s2 else (None, ?s1)"
  have "handle_ok ?s2" using assms by (rule handle_ok_cong) simp_all
  then have c: "handle_ok (snd (connect P ?s2))" by (rule handle_ok_connect)
  have s1: "handle_ok ?s1" using assms by (rule handle_ok_cong) simp_all
  have r: "handle_ok (snd ?r)" using c s1 by simp
  have "sockets (snd (onclose_clean P e s)) = sockets (snd ?r) \<and>
        ws (snd (onclose_clean P e s)) = ws (snd ?r)"
    by (simp add: onclose_clean_def Let_def split: option.splits)
  with r show ?thesis by (blast intro: handle_ok_cong)
qed

lemma handle_ok_settle: "handle_ok (snd r) \<Longrightarrow> handle_ok (settle r)"
  by (erule handle_ok_cong) simp_all

lemma handle_ok_fire:
  assumes "handle_ok s" "enabled s ev"
  shows "handle_ok (fire P s ev)"
proof (cases ev)
  case (OnOpen h)
  have "handle_ok (set_readyState h 1 s)"
    using assms OnOpen by (simp add: handle_ok_set_readyState live_def)
  then have "handle_ok (snd (onopen (set_readyState h 1 s)))"
    by (rule handle_ok_cong) simp_all
  then show ?thesis using OnOpen by (simp add: handle_ok_settle)
next
  case (OnClose h e)
  have b: "handle_ok (set_readyState h 3 s)"
    using assms OnClose by (simp add: handle_ok_set_readyState live_def)
  have "handle_ok (snd (onclose P e (set_readyState h 3 s)))"
  proof (cases "wasClean e")
    case True
    then show ?thesis using handle_ok_onclose_clean [OF b] by (simp add: onclose_def)
  next
    case False
    have "handle_ok (snd (onclose_dirty (set_readyState h 3 s)))"
      using b by (rule handle_ok_cong) simp_all
    then show ?thesis using False by (simp add: onclose_def)
  qed
  then show ?thesis using OnClose by (simp add: handle_ok_settle)
next
  case (OnError h)
  have "handle_ok (snd (onerror s))" using assms(1) by (rule handle_ok_cong) simp_all
  then show ?thesis using OnError by (simp add: handle_ok_settle)
next
  case (OnMessage h d)
  have "handle_ok (snd (onmessage P d s))" using assms(1) by (rule handle_ok_cong) simp_all
  then show ?thesis using OnMessage by (simp add: handle_ok_settle)
next
  case (TimerFires t)
  show ?thesis
  proof (cases "find (\<lambda>p. fst p = t) (timers s)")
    case None
    then show ?thesis using assms(1) TimerFires by simp
  next
    case (Some p)
    let ?s = "s\<lparr>timers := filter (\<lambda>p. fst p \<noteq> t) (timers s)\<rparr>"
    have b: "handle_ok ?s" using assms(1) by (rule handle_ok_cong) simp_all
    have "handle_ok (snd (run_timer P (snd (snd p)) ?s))"
    proof (cases "snd (snd p)")
      case Reconnect
      then show ?thesis using handle_ok_connect [OF b] by (simp add: run_timer_def)
    next
      case (DeliverContent c)
      have "handle_ok (snd (call_sink c ?s))" using b by (rule handle_ok_cong) simp_all
      then show ?thesis using DeliverContent by (simp add: run_timer_def)
    qed
    then show ?thesis using TimerFires Some by (simp add: handle_ok_settle)
  qed
next
  case CallConnect
  have "handle_ok (snd (connect P s))" using assms(1) by (rule handle_ok_connect)
  then show ?thesis using CallConnect by (simp add: handle_ok_settle)
next
  case (CallSend m)
  have "handle_ok (snd (send P m s))" using assms(1) by (rule handle_ok_cong) simp_all
  then show ?thesis using CallSend by (simp add: handle_ok_settle)
next
  case CallDisconnect
  have l: "handle_ok (log [S ''Closing WS''] s)"
    using assms(1) by (rule handle_ok_cong) simp_all
  have "handle_ok (snd (disconnect s))"
  proof (cases "ws s")
    case None
    then show ?thesis using l by (simp add: disconnect_def Let_def)
  next
    case (Some h)
    have "handle_ok (ws_close h (log [S ''Closing WS''] s))"
      using l by (rule handle_ok_ws_close) (simp add: Some)
    then show ?thesis using Some by (simp add: disconnect_def Let_def)
  qed
  then show ?thesis using CallDisconnect by (simp add: handle_ok_settle)
qed

lemma handle_ok_run: "run P s evs = Some s' \<Longrightarrow> handle_ok s \<Longrightarrow> handle_ok s'"
proof (induction evs arbitrary: s)
  case Nil
  then show ?case by simp
next
  case (Cons ev evs)
  from Cons.prems(1) have en: "enabled s ev" and r: "run P (fire P s ev) evs = Some s'"
    by (simp_all split: if_splits)
  have "handle_ok (fire P s ev)" using Cons.prems(2) en by (rule handle_ok_fire)
  with r show ?case by (rule Cons.IH)
qed

lemma handle_ok_constructor: "constructor arg = Inr s \<Longrightarrow> handle_ok s"
  by (cases arg) (auto simp: constructor_def defaults_def Let_def intro!: handle_okI)

lemma filter_at_most_one:
  "(\<forall>i < length xs. \<forall>j < length xs. Q (xs ! i) \<longrightarrow> Q (xs ! j) \<longrightarrow> i = j) \<Longrightarrow>
   length (filter Q xs) \<le> 1"
proof (induction xs)
  case Nil
  then show ?case by simp
next
  case (Cons x xs)
  have tl: "\<forall>i < length xs. \<forall>j < length xs. Q (xs ! i) \<longrightarrow> Q (xs ! j) \<longrightarrow> i = j"
  proof (intro allI impI)
    fix i j assume "i < length xs" "j < length xs" "Q (xs ! i)" "Q (xs ! j)"
    then have "Suc i = Suc j"
      using Cons.prems [rule_format, of "Suc i" "Suc j"] by simp
    then show "i = j" by simp
  qed
  show ?case
  proof (cases "Q x")
    case False
    then show ?thesis using Cons.IH [OF tl] by simp
  next
    case True
    have "\<not> Q (xs ! j)" if "j < length xs" for j
    proof
      assume "Q (xs ! j)"
      then have "(0::nat) = Suc j"
        using Cons.prems [rule_format, of 0 "Suc j"] True that by simp
      then show False by simp
    qed
    then have "\<forall>y \<in> set xs. \<not> Q y"
      by (metis in_set_conv_nth)
    then have "filter Q xs = []"
      by (simp add: filter_empty_conv)
    then show ?thesis using True by simp
  qed
qed

lemma handle_ok_one_live:
  assumes "handle_ok s"
  shows "length (filter live (sockets s)) \<le> 1"
proof (rule filter_at_most_one, intro allI impI)
  fix i j
  assume i: "i < length (sockets s)" "live (sockets s ! i)"
    and j: "j < length (sockets s)" "live (sockets s ! j)"
  have "ws s = Some i" using assms i by (rule handle_ok_live)
  moreover have "ws s = Some j" using assms j by (rule handle_ok_live)
  ultimately have "Some i = Some j" by (rule trans [OF sym])
  then show "i = j" by (rule option.inject [THEN iffD1])
qed

subsection \<open>Histories, the dirty branch, connect and the message handler\<close>

lemma config_onclose [simp]:
  "userToken (snd (onclose P e s)) = userToken s"
  "wsServer (snd (onclose P e s)) = wsServer s"
  "device (snd (onclose P e s)) = device s"
  "onMessage (snd (onclose P e s)) = onMessage s"
  "errLog (snd (onclose P e s)) = errLog s"
  "msgLog (snd (onclose P e s)) = msgLog s"
  "reconnectCount (snd (onclose P e s)) =
     (if wasClean e then reconnectCount s else incr (reconnectCount s))"
  by (simp_all add: onclose_def)

lemma scheduled_append: "scheduled (xs @ ys) = scheduled xs @ scheduled ys"
  by (induction xs rule: scheduled.induct) simp_all

lemma created_append: "created (xs @ ys) = created xs @ created ys"
  by (induction xs rule: created.induct) simp_all

lemma delivered_append: "delivered (xs @ ys) = delivered xs @ delivered ys"
  by (induction xs rule: delivered.induct) simp_all

lemma dirty_close_out:
  assumes "\<not> wasClean e"
  shows "out (fire P s (OnClose h e)) =
     out s
     @ [if msgLog s
        then MsgLog [S ''Disconnected, will try to reconnect. Retry count:'', N (reconnectCount s)]
        else ConsoleLog [S ''Disconnected, will try to reconnect. Retry count:'', N (reconnectCount s)]]
     @ (if 5 < incr (reconnectCount s) \<and> currentWsServer s \<noteq> wsServer s
        then [if msgLog s then MsgLog [S ''Switching to'', S (wsServer s)]
              else ConsoleLog [S ''Switching to'', S (wsServer s)]]
        else [])
     @ (case reconnectTimerId s of
          None \<Rightarrow> []
        | Some t \<Rightarrow> if t \<noteq> 0 then [ClearTimeout t] else [])
     @ [SetTimeout (Suc (timerSeq s)) (retry_delay s) Reconnect]"
  using assms
  by (simp add: onclose_def onclose_dirty_def settle_def retry_delay_def Let_def
      split: option.splits)

lemma dirty_close_scheduled:
  assumes "\<not> wasClean e"
  shows "scheduled (effects_since s (fire P s (OnClose h e))) = [(retry_delay s, Reconnect)]"
  unfolding effects_since_def dirty_close_out [OF assms]
  by (simp add: scheduled_append split: option.splits)

lemma incr_min: "incr (min n double_limit) = min (Suc n) double_limit"
  by (simp add: incr_def min_def)

lemma double_limit_big: "20 < double_limit"
  by (simp add: double_limit_def)

lemma run_count:
  "run P s evs = Some s1 \<Longrightarrow> list_all (\<lambda>ev. \<not> is_open ev) evs \<Longrightarrow>
   reconnectCount s = min n double_limit \<Longrightarrow>
   reconnectCount s1 = min (n + length (filter is_dirty_close evs)) double_limit"
proof (induction evs arbitrary: s n)
  case Nil
  then show ?case by simp
next
  case (Cons ev evs)
  from Cons.prems(1) have r: "run P (fire P s ev) evs = Some s1"
    by (simp split: if_splits)
  from Cons.prems(2) have no: "\<not> is_open ev" and rest: "list_all (\<lambda>ev. \<not> is_open ev) evs"
    by simp_all
  show ?case
  proof (cases "is_dirty_close ev")
    case True
    have "reconnectCount (fire P s ev) = min (Suc n) double_limit"
      using no True Cons.prems(3) by (simp add: fire_reconnectCount incr_min)
    from Cons.IH [OF r rest this] show ?thesis using True by simp
  next
    case False
    have "reconnectCount (fire P s ev) = min n double_limit"
      using no False Cons.prems(3) by (simp add: fire_reconnectCount)
    from Cons.IH [OF r rest this] show ?thesis using False by simp
  qed
qed

lemma run_config:
  "run P s evs = Some s' \<Longrightarrow> wsServer s' = wsServer s \<and> userToken s' = userToken s \<and>
     device s' = device s \<and> onMessage s' = onMessage s"
proof (induction evs arbitrary: s)
  case Nil
  then show ?case by simp
next
  case (Cons ev evs)
  from Cons.prems have "run P (fire P s ev) evs = Some s'"
    by (simp split: if_splits)
  from Cons.IH [OF this] show ?case by simp
qed

lemma run_primary:
  "run P s evs = Some s' \<Longrightarrow> list_all (\<lambda>ev. \<not> is_redirect ev) evs \<Longrightarrow>
   currentWsServer s = wsServer s \<Longrightarrow> currentWsServer s' = wsServer s"
proof (induction evs arbitrary: s)
  case Nil
  then show ?case by simp
next
  case (Cons ev evs)
  from Cons.prems(1) have r: "run P (fire P s ev) evs = Some s'"
    by (simp split: if_splits)
  from Cons.prems(2) have no: "\<not> is_redirect ev"
    and rest: "list_all (\<lambda>ev. \<not> is_redirect ev) evs"
    by simp_all
  have "currentWsServer (fire P s ev) = wsServer (fire P s ev)"
    using fire_currentWsServer [OF no Cons.prems(3)] by simp
  from Cons.IH [OF r rest this] show ?case by simp
qed

lemma transmitted_append: "transmitted (xs @ ys) = transmitted xs @ transmitted ys"
  by (induction xs rule: transmitted.induct) simp_all

lemma raised_append: "raised (xs @ ys) = raised xs @ raised ys"
  by (induction xs rule: raised.induct) simp_all

lemma error_logged_append: "error_logged (xs @ ys) = error_logged xs @ error_logged ys"
  by (induction xs rule: error_logged.induct) simp_all

lemma connect_out:
  "\<exists>xs. out (snd (connect P s)) = out s @ xs \<and> scheduled xs = [] \<and> delivered xs = [] \<and>
     transmitted xs = [] \<and> raised xs = [] \<and>
     created xs = (if proceeds P s then [currentWsServer s] else [])"
  by (simp add: connect_def Let_def proceeds_def split: option.splits)

lemma connect_proceeds:
  "proceeds P s \<Longrightarrow>
     fst (connect P s) = None \<and>
     ws (snd (connect P s)) = Some (length (sockets s)) \<and>
     sockets (snd (connect P s)) = sockets s @ [\<lparr>url = currentWsServer s, readyState = 0\<rparr>]"
  by (simp add: connect_def Let_def proceeds_def split: option.splits)

lemma redirect_close:
  assumes "wasClean e" "code e = 302"
  shows "onclose P e s =
     connect P (log [S ''Forwarding to'', S (reason e)]
       ((log [CloseEv e] (log [S ''WS connection closed clean''] s))\<lparr>currentWsServer := reason e\<rparr>))"
  using assms
  by (simp add: onclose_def onclose_clean_def Let_def prod_eq_iff split: option.splits)

lemma connect_busy:
  assumes "ws s = Some h" "readyState (sockets s ! h) \<noteq> 3"
  shows "connect P s =
    (None,
     s\<lparr>out := out s @
        (if userToken s = [] then
           [if errLog s then ErrLog [S ''User token required for BconsWS init'']
            else ConsoleError [S ''User token required for BconsWS init'']]
         else if currentWsServer s = [] then
           [if errLog s then ErrLog [S ''No Fry server provided, aborting.'']
            else ConsoleError [S ''No Fry server provided, aborting.'']]
         else
           [if msgLog s then MsgLog [S ''Connecting to Fry''] else ConsoleLog [S ''Connecting to Fry''],
            if msgLog s
            then MsgLog [S ''Websocket readyState is'', N (readyState (sockets s ! h)), S ''. Aborting'']
            else ConsoleLog [S ''Websocket readyState is'', N (readyState (sockets s ! h)), S ''. Aborting'']])\<rparr>)"
  using assms
  by (simp add: connect_def Let_def busy_def ws_readyState_def log_def logErr_def emit_def)

lemma onmessage_cases:
  "onmessage P d s =
     (None,
      s\<lparr>out := out s @
        (case JSON_parse P d of
           None \<Rightarrow> [if errLog s then ErrLog [Caught SyntaxError] else ConsoleError [Caught SyntaxError]]
         | Some v \<Rightarrow>
             (case onMessage s of
                None \<Rightarrow> []
              | Some f \<Rightarrow>
                  SinkCall (Parsed v) #
                  (case f (Parsed v) of
                     None \<Rightarrow> []
                   | Some x \<Rightarrow> [if errLog s then ErrLog [Caught x] else ConsoleError [Caught x]])))\<rparr>)"
  by (simp add: onmessage_def onmessage_try_def call_sink_def logErr_def emit_def
      split: option.splits)

subsection \<open>Timer ids stay fresh\<close>

lemma timers_fresh_same:
  "timers_fresh s \<Longrightarrow> timers s' = timers s \<Longrightarrow> timerSeq s' = timerSeq s \<Longrightarrow> timers_fresh s'"
  by (simp add: timers_fresh_def)

lemma timers_fresh_setTimeout: "timers_fresh s \<Longrightarrow> timers_fresh (snd (setTimeout f ms s))"
  by (auto simp: timers_fresh_def list_all_iff)

lemma timers_fresh_filter:
  "timers_fresh s \<Longrightarrow> timers s' = filter Q (timers s) \<Longrightarrow> timerSeq s' = timerSeq s \<Longrightarrow>
   timers_fresh s'"
  by (simp add: timers_fresh_def list_all_iff)

lemma onclose_clean_timers:
  "timers (snd (onclose_clean P e s)) =
     timers s @
     (if 400 < code e \<and> code e < 500 \<and> onMessage s \<noteq> None
      then [(Suc (timerSeq s), 3000, DeliverContent (ErrorContent (code e) (reason e)))]
      else [])"
  "timerSeq (snd (onclose_clean P e s)) =
     (if 400 < code e \<and> code e < 500 \<and> onMessage s \<noteq> None
      then Suc (timerSeq s) else timerSeq s)"
  by (simp_all add: onclose_clean_def Let_def split: option.splits)

lemma timers_fresh_onclose_clean:
  assumes "timers_fresh s"
  shows "timers_fresh (snd (onclose_clean P e s))"
proof -
  have "\<forall>p \<in> set (timers s). fst p \<le> Suc (timerSeq s)"
    using assms by (auto simp: timers_fresh_def list_all_iff)
  then show ?thesis
    using assms unfolding timers_fresh_def onclose_clean_timers
    by (auto simp: list_all_iff)
qed

lemma onclose_dirty_timers:
  "timers (snd (onclose_dirty s)) =
     (case reconnectTimerId s of
        None \<Rightarrow> timers s
      | Some t \<Rightarrow> if t \<noteq> 0 then filter (\<lambda>p. fst p \<noteq> t) (timers s) else timers s)
     @ [(Suc (timerSeq s), retry_delay s, Reconnect)]"
  by (simp add: onclose_dirty_def retry_delay_def Let_def split: option.splits)

lemma timers_fresh_onclose_dirty:
  assumes "timers_fresh s"
  shows "timers_fresh (snd (onclose_dirty s))"
proof -
  have "\<forall>p \<in> set (timers s). fst p \<le> Suc (timerSeq s)"
    using assms by (auto simp: timers_fresh_def list_all_iff)
  then show ?thesis
    unfolding timers_fresh_def onclose_dirty_timers
    by (simp add: list_all_iff split: option.splits)
qed

lemma timers_fresh_fire:
  assumes "timers_fresh s"
  shows "timers_fresh (fire P s ev)"
proof (cases ev)
  case (OnOpen h)
  show ?thesis unfolding OnOpen using assms by (rule timers_fresh_same) simp_all
next
  case (OnClose h e)
  have a: "timers_fresh (set_readyState h 3 s)"
    using assms by (rule timers_fresh_same) simp_all
  have "timers_fresh (snd (onclose P e (set_readyState h 3 s)))"
    using timers_fresh_onclose_clean [OF a] timers_fresh_onclose_dirty [OF a]
    by (simp add: onclose_def)
  then show ?thesis unfolding OnClose by (rule timers_fresh_same) simp_all
next
  case (OnError h)
  show ?thesis unfolding OnError using assms by (rule timers_fresh_same) simp_all
next
  case (OnMessage h d)
  show ?thesis unfolding OnMessage using assms by (rule timers_fresh_same) simp_all
next
  case (TimerFires t)
  show ?thesis
  proof (cases "find (\<lambda>p. fst p = t) (timers s)")
    case None
    then show ?thesis using assms TimerFires by simp
  next
    case (Some p)
    let ?s = "s\<lparr>timers := filter (\<lambda>p. fst p \<noteq> t) (timers s)\<rparr>"
    have "timers_fresh ?s" using assms by (rule timers_fresh_filter) simp_all
    then have "timers_fresh (settle (run_timer P (snd (snd p)) ?s))"
      by (rule timers_fresh_same) simp_all
    then show ?thesis using TimerFires Some by simp
  qed
next
  case CallConnect
  show ?thesis unfolding CallConnect using assms by (rule timers_fresh_same) simp_all
next
  case (CallSend m)
  show ?thesis unfolding CallSend using assms by (rule timers_fresh_same) simp_all
next
  case CallDisconnect
  show ?thesis unfolding CallDisconnect using assms by (rule timers_fresh_same) simp_all
qed

lemma timers_fresh_run: "run P s evs = Some s' \<Longrightarrow> timers_fresh s \<Longrightarrow> timers_fresh s'"
proof (induction evs arbitrary: s)
  case Nil
  then show ?case by simp
next
  case (Cons ev evs)
  from Cons.prems(1) have r: "run P (fire P s ev) evs = Some s'"
    by (simp split: if_splits)
  have "timers_fresh (fire P s ev)" using Cons.prems(2) by (rule timers_fresh_fire)
  with r show ?case by (rule Cons.IH)
qed

lemma timers_fresh_constructor: "constructor arg = Inr s \<Longrightarrow> timers_fresh s"
  by (cases arg) (auto simp: constructor_def defaults_def Let_def timers_fresh_def)

subsection \<open>The authentication frame\<close>

lemma scan_plain:
  "list_all plain t \<Longrightarrow>
   scan (InStr p) k a ms (t @ rest) = scan (InStr p) k (rev (units t) @ a) ms rest"
proof (induction t arbitrary: a)
  case Nil
  then show ?case by (simp add: units_def)
next
  case (Cons c t)
  then have c: "plain c" and t: "list_all plain t" by simp_all
  have "scan (InStr p) k a ms ((c # t) @ rest) = scan (InStr p) k (of_char c # a) ms (t @ rest)"
    using c by (simp add: plain_def)
  also have "\<dots> = scan (InStr p) k (rev (units t) @ of_char c # a) ms rest"
    using t by (rule Cons.IH)
  finally show ?case by (simp add: units_def)
qed

lemma auth_frame_plain:
  assumes "list_all plain t" "list_all plain d"
  shows "scan Start [] [] [] (auth_frame t d) =
     Some [(units ''e'', units ''auth''), (units ''userToken'', units t), (units ''device'', units d)]"
proof -
  have 1: \<open>scan Start [] [] [] (auth_frame t d) =
      scan (InStr Val) (units ''userToken'') [] [(units ''e'', units ''auth'')]
        (t @ ''", "device":"'' @ d @ ''"}'')\<close>
    by (simp add: auth_frame_def is_ws_def units_def)
  have 2: \<open>scan (InStr Val) (units ''userToken'') [] [(units ''e'', units ''auth'')]
        (t @ ''", "device":"'' @ d @ ''"}'') =
      scan (InStr Val) (units ''device'') []
        [(units ''e'', units ''auth''), (units ''userToken'', units t)] (d @ ''"}'')\<close>
    unfolding scan_plain [OF assms(1)] by (simp add: is_ws_def units_def)
  have 3: \<open>scan (InStr Val) (units ''device'') []
        [(units ''e'', units ''auth''), (units ''userToken'', units t)] (d @ ''"}'') =
     Some [(units ''e'', units ''auth''), (units ''userToken'', units t), (units ''device'', units d)]\<close>
    unfolding scan_plain [OF assms(2)] by (simp add: is_ws_def)
  show ?thesis using 1 2 3 by simp
qed

lemma open_transmits:
  assumes "ws s = Some h" "h < length (sockets s)"
  shows "transmitted (effects_since s (fire P s (OnOpen h))) = [auth_frame (userToken s) (device s)]"
  using assms
  by (simp add: onopen_def ws_send_def settle_def effects_since_def Let_def)

subsection \<open>send with a socket\<close>

lemma send_not_open:
  "ws s = Some h \<Longrightarrow> readyState (sockets s ! h) \<noteq> 1 \<Longrightarrow> send P m s = (None, s)"
  by (simp add: send_def)

lemma send_open_text:
  "ws s = Some h \<Longrightarrow> readyState (sockets s ! h) = 1 \<Longrightarrow>
   send P (Text t) s = (None, emit (Transmit h t) s)"
  by (simp add: send_def ws_send_def)

lemma send_open_structured:
  "ws s = Some h \<Longrightarrow> readyState (sockets s ! h) = 1 \<Longrightarrow>
   send P (Structured v) s =
     (case JSON_stringify P v of
        None \<Rightarrow> (Some TypeError, s)
      | Some t \<Rightarrow> (None, emit (Transmit h t) s))"
  by (simp add: send_def ws_send_def split: option.splits)

subsection \<open>The concrete client, evaluated\<close>

lemma dirty_close_timers:
  assumes "\<not> wasClean e"
  shows "timers (fire P s (OnClose h e)) =
     (case reconnectTimerId s of
        None \<Rightarrow> timers s
      | Some t \<Rightarrow> if t \<noteq> 0 then filter (\<lambda>p. fst p \<noteq> t) (timers s) else timers s)
     @ [(Suc (timerSeq s), retry_delay s, Reconnect)]"
  using assms
  by (simp add: onclose_def onclose_dirty_def retry_delay_def Let_def split: option.splits)

lemma demo_open_fields:
  "reconnectCount demo_open = 0" "currentWsServer demo_open = wsServer demo_open"
  "timers demo_open = []" "timerSeq demo_open = 0" "reconnectTimerId demo_open = None"
  "sockets demo_open = [\<lparr>url = ''wss://bcons.dev/fry'', readyState = 1\<rparr>]"
  "ws demo_open = Some 0" "userToken demo_open = ''tok''"
  "onMessage demo_open = Some quiet_sink"
  by (simp_all add: demo_open_def demo_new_def defaults_def)

lemma demo_failover_fields:
  "reconnectCount demo_failover = 5" "currentWsServer demo_failover = ''wss://other.example/fry''"
  "wsServer demo_failover = ''wss://bcons.dev/fry''"
  "timers demo_failover = []" "timerSeq demo_failover = 0" "reconnectTimerId demo_failover = None"
  by (simp_all add: demo_failover_def demo_open_def demo_new_def defaults_def)

section \<open>The claims\<close>

text \<open>
  C1. A clean close whose code c satisfies 400 < c < 500, with a sink registered: the
  close handler sets exactly one timer, of 3000 ms, whose callback hands the payload
  \<open>{errorCode: c, reason}\<close> to the sink; it delivers nothing itself, creates no socket and
  leaves the reconnect timer alone. When that timer fires the sink is called exactly once
  with the payload, no socket is created and no timer is set, and the timer is gone, so
  it cannot fire again. (\<open>timers_fresh\<close> says that the platform has not yet handed out the
  id the new timer gets; it holds in every state a history leads to from a constructed
  client, see \<open>timers_fresh_constructor\<close> and \<open>timers_fresh_run\<close>.)
\<close>

theorem C1_rejection_delivered_once:
  assumes "wasClean e" and "400 < code e" and "code e < 500" and "onMessage s = Some f"
    and "timers_fresh s"
  shows "(let c = ErrorContent (code e) (reason e);
              s1 = fire P s (OnClose h e);
              t = Suc (timerSeq s);
              s2 = fire P s1 (TimerFires t)
          in scheduled (effects_since s s1) = [(3000, DeliverContent c)]
           \<and> delivered (effects_since s s1) = []
           \<and> created (effects_since s s1) = []
           \<and> sockets s1 = (sockets s)[h := (sockets s ! h)\<lparr>readyState := 3\<rparr>]
           \<and> ws s1 = ws s
           \<and> reconnectTimerId s1 = reconnectTimerId s
           \<and> timers s1 = timers s @ [(t, 3000, DeliverContent c)]
           \<and> enabled s1 (TimerFires t)
           \<and> delivered (effects_since s1 s2) = [c]
           \<and> created (effects_since s1 s2) = []
           \<and> scheduled (effects_since s1 s2) = []
           \<and> timers s2 = timers s
           \<and> \<not> enabled s2 (TimerFires t))"
proof -
  define c :: "'a payload" where "c = ErrorContent (code e) (reason e)"
  define s1 where "s1 = fire P s (OnClose h e)"
  define t where "t = Suc (timerSeq s)"
  define s2 where "s2 = fire P s1 (TimerFires t)"
  have eq: "s1 = snd (setTimeout (DeliverContent c) 3000
          (log [CloseEv e] (log [S ''WS connection closed clean''] (set_readyState h 3 s))))"
    unfolding s1_def c_def using assms(1-4) by (rule rejected_close)
  have o1: "out s1 = out s @ [if msgLog s then MsgLog [S ''WS connection closed clean''] else ConsoleLog [S ''WS connection closed clean''],
        if msgLog s then MsgLog [CloseEv e] else ConsoleLog [CloseEv e], SetTimeout t 3000 (DeliverContent c)]"
    by (simp add: eq t_def)
  have e1: "effects_since s s1 = [if msgLog s then MsgLog [S ''WS connection closed clean''] else ConsoleLog [S ''WS connection closed clean''],
        if msgLog s then MsgLog [CloseEv e] else ConsoleLog [CloseEv e], SetTimeout t 3000 (DeliverContent c)]"
    using o1 by (rule effects_since_append)
  have t1: "timers s1 = timers s @ [(t, 3000, DeliverContent c)]"
    by (simp add: eq t_def)
  have fr: "\<forall>p \<in> set (timers s). fst p \<noteq> t"
    using assms(5) by (auto simp: timers_fresh_def t_def list_all_iff)
  have om: "onMessage s1 = Some f"
    by (simp add: eq assms(4))
  have s2eq: "s2 = settle (call_sink c (s1\<lparr>timers := timers s\<rparr>))"
    by (simp add: s2_def t1 find_fresh [OF fr] filter_fresh [OF fr] run_timer_def)
  have o2: "out s2 = out s1 @ (SinkCall c # (case f c of None \<Rightarrow> [] | Some x \<Rightarrow> [Raised x]))"
    by (simp add: s2eq call_sink_def om settle_def split: option.splits)
  have e2: "effects_since s1 s2 = SinkCall c # (case f c of None \<Rightarrow> [] | Some x \<Rightarrow> [Raised x])"
    using o2 by (rule effects_since_append)
  have t2: "timers s2 = timers s"
    by (simp add: s2eq)
  have a: "scheduled (effects_since s s1) = [(3000, DeliverContent c)]"
    by (simp add: e1)
  have b: "delivered (effects_since s s1) = []" "created (effects_since s s1) = []"
    by (simp_all add: e1)
  have d: "sockets s1 = (sockets s)[h := (sockets s ! h)\<lparr>readyState := 3\<rparr>]" "ws s1 = ws s"
     "reconnectTimerId s1 = reconnectTimerId s"
    by (simp_all add: eq)
  have g: "enabled s1 (TimerFires t)"
    by (simp add: t1)
  have i: "delivered (effects_since s1 s2) = [c]" "created (effects_since s1 s2) = []"
     "scheduled (effects_since s1 s2) = []"
    by (simp_all add: e2 split: option.splits)
  have j: "\<not> enabled s2 (TimerFires t)"
    using fr by (auto simp: t2)
  show ?thesis
    unfolding Let_def c_def [symmetric] s1_def [symmetric] t_def [symmetric] s2_def [symmetric]
    using a b d t1 g i t2 j by simp
qed

theorem C1_rejection_witness:
  "wasClean rejection \<and> 400 < code rejection \<and> code rejection < 500
   \<and> onMessage demo_open = Some quiet_sink \<and> timers_fresh demo_open
   \<and> (let c = ErrorContent (code rejection) (reason rejection);
            s1 = fire demo_platform demo_open (OnClose 0 rejection);
            t = Suc (timerSeq demo_open);
            s2 = fire demo_platform s1 (TimerFires t)
        in scheduled (effects_since demo_open s1) = [(3000, DeliverContent c)]
         \<and> delivered (effects_since demo_open s1) = []
         \<and> created (effects_since demo_open s1) = []
         \<and> sockets s1 = (sockets demo_open)[0 := (sockets demo_open ! 0)\<lparr>readyState := 3\<rparr>]
         \<and> ws s1 = ws demo_open
         \<and> reconnectTimerId s1 = reconnectTimerId demo_open
         \<and> timers s1 = timers demo_open @ [(t, 3000, DeliverContent c)]
         \<and> enabled s1 (TimerFires t)
         \<and> delivered (effects_since s1 s2) = [c]
         \<and> created (effects_since s1 s2) = []
         \<and> scheduled (effects_since s1 s2) = []
         \<and> timers s2 = timers demo_open
         \<and> \<not> enabled s2 (TimerFires t))"
proof -
  have h1: "wasClean rejection" and h2: "400 < code rejection" and h3: "code rejection < 500"
    by (simp_all add: rejection_def)
  have h4: "onMessage demo_open = Some quiet_sink"
    by (simp add: demo_open_def demo_new_def)
  have h5: "timers_fresh demo_open"
    by (simp add: timers_fresh_def demo_open_def demo_new_def defaults_def)
  show ?thesis
    using h1 h2 h3 h4 h5
      C1_rejection_delivered_once [OF h1 h2 h3 h4 h5, of demo_platform 0]
    by blast
qed

text \<open>
  C2. Take a state whose counter is 0 and any history from it without an open event that
  holds k - 1 dirty closes. If the current server is the primary one when the k-th dirty
  close arrives, that close sets exactly one timer, the reconnect, with a delay of 1000 ms
  for k up to 5, 5000 ms for k from 6 to 10, 7000 ms for k from 11 to 20 and 10000 ms
  above 20.
\<close>

theorem C2_backoff_schedule:
  assumes "run P s evs = Some s1"
    and "reconnectCount s = 0"
    and "list_all (\<lambda>ev. \<not> is_open ev) evs"
    and "currentWsServer s1 = wsServer s1"
    and "\<not> wasClean e"
    and "k = Suc (length (filter is_dirty_close evs))"
  shows "scheduled (effects_since s1 (fire P s1 (OnClose h e))) =
           [(if k \<le> 5 then 1000 else if k \<le> 10 then 5000 else if k \<le> 20 then 7000 else 10000,
             Reconnect)]"
proof -
  have "reconnectCount s = min 0 double_limit" using assms(2) by simp
  from run_count [OF assms(1,3) this]
  have "reconnectCount s1 = min (length (filter is_dirty_close evs)) double_limit" by simp
  then have n: "incr (reconnectCount s1) = min k double_limit"
    using assms(6) by (simp add: incr_min)
  have "retry_delay s1 =
          (if k \<le> 5 then 1000 else if k \<le> 10 then 5000 else if k \<le> 20 then 7000 else 10000)"
    unfolding retry_delay_def Let_def n using assms(4) double_limit_big by (simp add: min_def)
  then show ?thesis using dirty_close_scheduled [OF assms(5), of s1 P h] by simp
qed

theorem C2_backoff_witness:
  "(let evs = [OnClose 0 abrupt, TimerFires 1];
        s1 = fire demo_platform (fire demo_platform demo_open (OnClose 0 abrupt)) (TimerFires 1)
    in run demo_platform demo_open evs = Some s1
     \<and> reconnectCount demo_open = 0
     \<and> list_all (\<lambda>ev. \<not> is_open ev) evs
     \<and> currentWsServer s1 = wsServer s1
     \<and> \<not> wasClean abrupt
     \<and> (2::nat) = Suc (length (filter is_dirty_close evs))
     \<and> scheduled (effects_since s1 (fire demo_platform s1 (OnClose 1 abrupt))) = [(1000, Reconnect)])"
proof -
  define evs :: "nat event list" where "evs = [OnClose 0 abrupt, TimerFires 1]"
  define s1 where
    "s1 = fire demo_platform (fire demo_platform demo_open (OnClose 0 abrupt)) (TimerFires 1)"
  have d: "\<not> wasClean abrupt" by (simp add: abrupt_def)
  have t: "timers (fire demo_platform demo_open (OnClose 0 abrupt)) = [(1, 1000, Reconnect)]"
    unfolding dirty_close_timers [OF d]
    by (simp add: demo_open_fields retry_delay_def incr_def double_limit_def)
  have h1: "run demo_platform demo_open evs = Some s1"
    unfolding evs_def s1_def run.simps enabled.simps t
    by (simp add: demo_open_fields)
  have h2: "reconnectCount demo_open = 0" by (simp add: demo_open_fields)
  have h3: "list_all (\<lambda>ev. \<not> is_open ev) evs" by (simp add: evs_def)
  have nr: "list_all (\<lambda>ev. \<not> is_redirect ev) evs" by (simp add: evs_def d)
  have h4: "currentWsServer s1 = wsServer s1"
    using run_primary [OF h1 nr] run_config [OF h1] by (simp add: demo_open_fields)
  have h6: "(2::nat) = Suc (length (filter is_dirty_close evs))"
    by (simp add: evs_def d)
  have "scheduled (effects_since s1 (fire demo_platform s1 (OnClose 1 abrupt))) = [(1000, Reconnect)]"
    using C2_backoff_schedule [OF h1 h2 h3 h4 d h6, of 1] by simp
  then show ?thesis
    unfolding Let_def evs_def [symmetric] s1_def [symmetric]
    using h1 h2 h3 h4 d h6 by simp
qed

text \<open>
  C3. A dirty close that brings the counter above 5 while the current server is not the
  primary one sets the current server to the primary one and sets the one reconnect timer
  to 1000 ms; after any further history without a redirect (a clean close with code 302)
  the current server is still the primary one.
\<close>

theorem C3_return_to_primary:
  assumes "\<not> wasClean e"
    and "5 < reconnectCount (fire P s (OnClose h e))"
    and "currentWsServer s \<noteq> wsServer s"
    and "run P (fire P s (OnClose h e)) evs = Some s'"
    and "list_all (\<lambda>ev. \<not> is_redirect ev) evs"
  shows "currentWsServer (fire P s (OnClose h e)) = wsServer s
       \<and> wsServer (fire P s (OnClose h e)) = wsServer s
       \<and> scheduled (effects_since s (fire P s (OnClose h e))) = [(1000, Reconnect)]
       \<and> currentWsServer s' = wsServer s
       \<and> wsServer s' = wsServer s"
proof -
  let ?s1 = "fire P s (OnClose h e)"
  have n: "5 < incr (reconnectCount s)"
    using assms(1,2) by (simp add: fire_reconnectCount del: fire.simps)
  have a: "currentWsServer ?s1 = wsServer s"
    using assms(1) n by (simp add: onclose_def)
  have b: "wsServer ?s1 = wsServer s" by (simp del: fire.simps)
  have "retry_delay s = 1000"
    using n assms(3) by (simp add: retry_delay_def)
  then have c: "scheduled (effects_since s ?s1) = [(1000, Reconnect)]"
    using dirty_close_scheduled [OF assms(1), of s P h] by simp
  have "currentWsServer ?s1 = wsServer ?s1" using a b by simp
  from run_primary [OF assms(4,5) this] have d: "currentWsServer s' = wsServer s" by simp
  have e: "wsServer s' = wsServer s" using run_config [OF assms(4)] by simp
  show ?thesis using a b c d e by simp
qed

theorem C3_return_witness:
  "(let s1 = fire demo_platform demo_failover (OnClose 0 abrupt);
        s' = fire demo_platform s1 (TimerFires 1)
    in \<not> wasClean abrupt
     \<and> 5 < reconnectCount s1
     \<and> currentWsServer demo_failover \<noteq> wsServer demo_failover
     \<and> run demo_platform s1 [TimerFires 1] = Some s'
     \<and> list_all (\<lambda>ev. \<not> is_redirect ev) [TimerFires 1 :: nat event]
     \<and> currentWsServer s1 = ''wss://bcons.dev/fry''
     \<and> scheduled (effects_since demo_failover s1) = [(1000, Reconnect)]
     \<and> currentWsServer s' = ''wss://bcons.dev/fry'')"
proof -
  define s1 where "s1 = fire demo_platform demo_failover (OnClose 0 abrupt)"
  define s' where "s' = fire demo_platform s1 (TimerFires 1)"
  have d: "\<not> wasClean abrupt" by (simp add: abrupt_def)
  have h2: "5 < reconnectCount (fire demo_platform demo_failover (OnClose 0 abrupt))"
    unfolding fire_reconnectCount
    by (simp add: d demo_failover_fields incr_def double_limit_def)
  have h3: "currentWsServer demo_failover \<noteq> wsServer demo_failover"
    by (simp add: demo_failover_fields)
  have t: "timers (fire demo_platform demo_failover (OnClose 0 abrupt)) = [(1, 1000, Reconnect)]"
    unfolding dirty_close_timers [OF d]
    by (simp add: demo_failover_fields retry_delay_def incr_def double_limit_def)
  have h4: "run demo_platform (fire demo_platform demo_failover (OnClose 0 abrupt)) [TimerFires 1]
              = Some s'"
    unfolding s'_def s1_def run.simps enabled.simps t by simp
  have h5: "list_all (\<lambda>ev. \<not> is_redirect ev) [TimerFires 1 :: nat event]" by simp
  have c: "currentWsServer s1 = wsServer demo_failover
       \<and> wsServer s1 = wsServer demo_failover
       \<and> scheduled (effects_since demo_failover s1) = [(1000, Reconnect)]
       \<and> currentWsServer s' = wsServer demo_failover
       \<and> wsServer s' = wsServer demo_failover"
    unfolding s1_def by (rule C3_return_to_primary [OF d h2 h3 h4 h5])
  have h2': "5 < reconnectCount s1" unfolding s1_def by (rule h2)
  have h4': "run demo_platform s1 [TimerFires 1] = Some s'" unfolding s1_def by (rule h4)
  have w: "wsServer demo_failover = ''wss://bcons.dev/fry''" by (simp add: demo_failover_fields)
  show ?thesis
    unfolding Let_def s1_def [symmetric] s'_def [symmetric]
    using d h2' h3 h4' h5 c unfolding w by blast
qed

text \<open>
  C4. A clean close with code 302 and reason R: the state after the event is the state
  \<open>connect\<close> returns when called, within the handler, on the state whose current server
  is R; the current server is R afterwards, the counter, the reconnect timer id and the
  pending timers are unchanged and no timer is set. When the client has a token, R is not
  empty, the closed socket is the current one and the platform accepts R, a socket to R is
  created in the same step and becomes the current one.
\<close>

theorem C4_redirect_immediate:
  assumes "wasClean e" and "code e = 302"
  shows "(let s0 = log [S ''Forwarding to'', S (reason e)]
                     ((log [CloseEv e] (log [S ''WS connection closed clean''] (set_readyState h 3 s)))
                        \<lparr>currentWsServer := reason e\<rparr>);
              s' = fire P s (OnClose h e)
          in s' = settle (connect P s0)
           \<and> currentWsServer s' = reason e
           \<and> reconnectCount s' = reconnectCount s
           \<and> reconnectTimerId s' = reconnectTimerId s
           \<and> timers s' = timers s
           \<and> scheduled (effects_since s s') = []
           \<and> (userToken s \<noteq> [] \<and> reason e \<noteq> [] \<and> ws s = Some h \<and> h < length (sockets s)
                \<and> WebSocket_rejects P (reason e) = None \<longrightarrow>
                created (effects_since s s') = [reason e]
                \<and> ws s' = Some (length (sockets s))
                \<and> sockets s' = (sockets s)[h := (sockets s ! h)\<lparr>readyState := 3\<rparr>]
                                 @ [\<lparr>url = reason e, readyState = 0\<rparr>]))"
proof -
  define s0 where "s0 = log [S ''Forwarding to'', S (reason e)]
       ((log [CloseEv e] (log [S ''WS connection closed clean''] (set_readyState h 3 s)))
          \<lparr>currentWsServer := reason e\<rparr>)"
  define s' where "s' = fire P s (OnClose h e)"
  have eq: "s' = settle (connect P s0)"
    by (simp add: s'_def s0_def redirect_close [OF assms])
  have o0: "out s0 = out s @
      [if msgLog s then MsgLog [S ''WS connection closed clean''] else ConsoleLog [S ''WS connection closed clean''],
       if msgLog s then MsgLog [CloseEv e] else ConsoleLog [CloseEv e],
       if msgLog s then MsgLog [S ''Forwarding to'', S (reason e)]
       else ConsoleLog [S ''Forwarding to'', S (reason e)]]"
    by (simp add: s0_def)
  obtain xs where xs: "out (snd (connect P s0)) = out s0 @ xs" "scheduled xs = []"
      "created xs = (if proceeds P s0 then [currentWsServer s0] else [])"
    using connect_out [of P s0] by blast
  obtain ys where ys: "out s' = out (snd (connect P s0)) @ ys" "scheduled ys = []" "created ys = []"
    by (cases "fst (connect P s0)") (simp_all add: eq settle_def)
  have eff: "effects_since s s' =
      [if msgLog s then MsgLog [S ''WS connection closed clean''] else ConsoleLog [S ''WS connection closed clean''],
       if msgLog s then MsgLog [CloseEv e] else ConsoleLog [CloseEv e],
       if msgLog s then MsgLog [S ''Forwarding to'', S (reason e)]
       else ConsoleLog [S ''Forwarding to'', S (reason e)]] @ xs @ ys"
    by (rule effects_since_append) (simp add: ys xs o0)
  have a: "currentWsServer s' = reason e" "reconnectCount s' = reconnectCount s"
    "reconnectTimerId s' = reconnectTimerId s" "timers s' = timers s"
    by (simp_all add: eq s0_def)
  have b: "scheduled (effects_since s s') = []"
    by (simp add: eff scheduled_append xs ys)
  have c: "created (effects_since s s') = [reason e] \<and> ws s' = Some (length (sockets s))
      \<and> sockets s' = (sockets s)[h := (sockets s ! h)\<lparr>readyState := 3\<rparr>] @ [\<lparr>url = reason e, readyState = 0\<rparr>]"
    if "userToken s \<noteq> []" "reason e \<noteq> []" "ws s = Some h" "h < length (sockets s)"
       "WebSocket_rejects P (reason e) = None"
  proof -
    have p: "proceeds P s0"
      using that by (simp add: proceeds_def s0_def busy_def)
    have "created (effects_since s s') = [reason e]"
      using p by (simp add: eff created_append xs ys s0_def)
    moreover have "ws s' = Some (length (sockets s))"
      "sockets s' = (sockets s)[h := (sockets s ! h)\<lparr>readyState := 3\<rparr>] @ [\<lparr>url = reason e, readyState = 0\<rparr>]"
      using connect_proceeds [OF p] by (simp_all add: eq s0_def)
    ultimately show ?thesis by simp
  qed
  show ?thesis
    unfolding Let_def s0_def [symmetric] s'_def [symmetric]
    using eq a b c by blast
qed

theorem C4_redirect_witness:
  "(let s' = fire demo_platform demo_open (OnClose 0 redirection)
    in wasClean redirection \<and> code redirection = 302
     \<and> userToken demo_open \<noteq> [] \<and> reason redirection \<noteq> [] \<and> ws demo_open = Some 0
     \<and> 0 < length (sockets demo_open)
     \<and> WebSocket_rejects demo_platform (reason redirection) = None
     \<and> currentWsServer s' = ''wss://other.example/fry''
     \<and> reconnectCount s' = reconnectCount demo_open
     \<and> timers s' = timers demo_open
     \<and> scheduled (effects_since demo_open s') = []
     \<and> created (effects_since demo_open s') = [''wss://other.example/fry'']
     \<and> ws s' = Some 1
     \<and> sockets s' = [\<lparr>url = ''wss://bcons.dev/fry'', readyState = 3\<rparr>,
                      \<lparr>url = ''wss://other.example/fry'', readyState = 0\<rparr>])"
proof -
  have h1: "wasClean redirection" and h2: "code redirection = 302"
    by (simp_all add: redirection_def)
  have g: "userToken demo_open \<noteq> [] \<and> reason redirection \<noteq> [] \<and> ws demo_open = Some 0
     \<and> 0 < length (sockets demo_open)
     \<and> WebSocket_rejects demo_platform (reason redirection) = None"
    by (simp add: demo_open_fields redirection_def demo_platform_def)
  define s' where "s' = fire demo_platform demo_open (OnClose 0 redirection)"
  note th = C4_redirect_immediate [OF h1 h2, where P = demo_platform and h = 0 and s = demo_open,
      unfolded Let_def, folded s'_def]
  have c: "currentWsServer s' = reason redirection
     \<and> reconnectCount s' = reconnectCount demo_open
     \<and> timers s' = timers demo_open
     \<and> scheduled (effects_since demo_open s') = []
     \<and> created (effects_since demo_open s') = [reason redirection]
     \<and> ws s' = Some (length (sockets demo_open))
     \<and> sockets s' = (sockets demo_open)[0 := (sockets demo_open ! 0)\<lparr>readyState := 3\<rparr>]
                       @ [\<lparr>url = reason redirection, readyState = 0\<rparr>]"
    using th g by blast
  have r: "reason redirection = ''wss://other.example/fry''" by (simp add: redirection_def)
  show ?thesis
    unfolding Let_def s'_def [symmetric]
    using h1 h2 g c by (simp add: demo_open_fields r)
qed

text \<open>
  C5. \<open>connect\<close> called while \<^verbatim>\<open>this.ws\<close> refers to a socket that is not closed returns
  normally, and the state it returns differs from the one it found by log entries only:
  no socket is created, no timer set, nothing sent, and the socket, counter and server
  fields are the same. And in every state a history leads to from a newly constructed
  client, at most one socket of the store is live.
\<close>

theorem C5_connect_refused_while_live:
  "(ws s = Some h \<and> readyState (sockets s ! h) \<noteq> 3 \<longrightarrow>
      fst (connect P s) = None
      \<and> (\<exists>logs. snd (connect P s) = s\<lparr>out := out s @ logs\<rparr>
            \<and> created logs = [] \<and> scheduled logs = [] \<and> transmitted logs = []
            \<and> delivered logs = []))
   \<and> (constructor arg = Inr s0 \<and> run P s0 evs = Some s1 \<longrightarrow>
        length (filter live (sockets s1)) \<le> 1)"
proof (intro conjI impI)
  assume a: "ws s = Some h \<and> readyState (sockets s ! h) \<noteq> 3"
  then have b: "ws s = Some h" and c: "readyState (sockets s ! h) \<noteq> 3" by simp_all
  show "fst (connect P s) = None"
    by (simp add: connect_busy [OF b c])
  show "\<exists>logs. snd (connect P s) = s\<lparr>out := out s @ logs\<rparr>
            \<and> created logs = [] \<and> scheduled logs = [] \<and> transmitted logs = []
            \<and> delivered logs = []"
    unfolding connect_busy [OF b c] snd_conv
    by (rule exI, rule conjI, rule refl) simp
next
  assume a: "constructor arg = Inr s0 \<and> run P s0 evs = Some s1"
  then have c: "constructor arg = Inr s0" and r: "run P s0 evs = Some s1" by simp_all
  have "handle_ok s0" using c by (rule handle_ok_constructor)
  with r have "handle_ok s1" by (rule handle_ok_run)
  then show "length (filter live (sockets s1)) \<le> 1" by (rule handle_ok_one_live)
qed

theorem C5_connect_refused_witness:
  "(let s1 = fire demo_platform (fire demo_platform demo_new CallConnect) (OnOpen 0)
    in ws demo_open = Some 0 \<and> readyState (sockets demo_open ! 0) \<noteq> 3
     \<and> fst (connect demo_platform demo_open) = None
     \<and> (\<exists>logs. snd (connect demo_platform demo_open) = demo_open\<lparr>out := out demo_open @ logs\<rparr>
           \<and> created logs = [] \<and> scheduled logs = [] \<and> transmitted logs = []
           \<and> delivered logs = [])
     \<and> constructor (Obj demo_options) = Inr demo_new
     \<and> run demo_platform demo_new [CallConnect, OnOpen 0] = Some s1
     \<and> length (filter live (sockets s1)) \<le> 1)"
proof -
  define s1 where "s1 = fire demo_platform (fire demo_platform demo_new CallConnect) (OnOpen 0)"
  have h1: "ws demo_open = Some 0 \<and> readyState (sockets demo_open ! 0) \<noteq> 3"
    by (simp add: demo_open_fields)
  have c: "constructor (Obj demo_options) = Inr demo_new"
    by (simp add: constructor_def demo_options_def demo_new_def no_options_def overwrite_def
        defaults_def Let_def)
  have p: "proceeds demo_platform demo_new"
    by (simp add: proceeds_def busy_def demo_new_def defaults_def demo_platform_def)
  have s: "sockets (fire demo_platform demo_new CallConnect) =
             [\<lparr>url = ''wss://bcons.dev/fry'', readyState = 0\<rparr>]"
    using connect_proceeds [OF p] by (simp add: demo_new_def defaults_def)
  have r: "run demo_platform demo_new [CallConnect, OnOpen 0] = Some s1"
    unfolding s1_def run.simps enabled.simps s by simp
  have h2: "constructor (Obj demo_options) = Inr demo_new
      \<and> run demo_platform demo_new [CallConnect, OnOpen 0] = Some s1"
    using c r by simp
  show ?thesis
    unfolding Let_def s1_def [symmetric]
    using h1 h2
      C5_connect_refused_while_live [where s = demo_open and h = 0 and P = demo_platform
        and arg = "Obj demo_options" and ?s0.0 = demo_new and evs = "[CallConnect, OnOpen 0]"
        and ?s1.0 = s1]
    by blast
qed

text \<open>
  C6. \<open>send\<close> on a newly constructed client, before any \<open>connect\<close>: \<^verbatim>\<open>this.ws\<close> is
  \<^verbatim>\<open>null\<close> and reading \<^verbatim>\<open>readyState\<close> raises a TypeError to the caller, for every
  options object and every message. The claim says the call is a silent no-op there.
\<close>

theorem C6_send_without_socket:
  "(case constructor (Obj opts) of
      Inl x \<Rightarrow> False
    | Inr s \<Rightarrow> send P m s = (Some TypeError, s)
              \<and> raised (effects_since s (fire P s (CallSend m))) = [TypeError])"
  by (simp add: constructor_def Let_def defaults_def send_def settle_def effects_since_def)

text \<open>
  C7. On the open event the client sends one frame, the template with the token and the
  device spliced in unescaped. With the device label \<open>a"b\<close> that frame is not JSON at
  all: the quote inside the label ends the string early. (For a token and a device made
  of characters that need no escaping the frame parses to the three fields, see
  \<open>auth_frame_plain\<close>.)
\<close>

theorem C7_auth_frame_not_escaped:
  \<open>ws demo_connecting = Some 0
   \<and> enabled demo_connecting (OnOpen 0)
   \<and> userToken demo_connecting = ''tok''
   \<and> device demo_connecting = ''a"b''
   \<and> transmitted (effects_since demo_connecting (fire P demo_connecting (OnOpen 0))) =
        [''{"e": "auth", "userToken":"tok", "device":"a"b"}'']
   \<and> parse_string_object ''{"e": "auth", "userToken":"tok", "device":"a"b"}'' = None\<close>
proof -
  have a: "ws demo_connecting = Some 0" "0 < length (sockets demo_connecting)"
    \<open>userToken demo_connecting = ''tok''\<close> \<open>device demo_connecting = ''a"b''\<close>
    "enabled demo_connecting (OnOpen 0)"
    by (simp_all add: demo_connecting_def demo_new_def defaults_def)
  have b: \<open>transmitted (effects_since demo_connecting (fire P demo_connecting (OnOpen 0))) =
        [''{"e": "auth", "userToken":"tok", "device":"a"b"}'']\<close>
    unfolding open_transmits [OF a(1,2)] a(3,4) by (simp add: auth_frame_def)
  have c: \<open>parse_string_object ''{"e": "auth", "userToken":"tok", "device":"a"b"}'' = None\<close>
    by (simp add: parse_string_object_def is_ws_def)
  show ?thesis using a b c by simp
qed

text \<open>
  C8. An open event leaves the counter at 0 whatever it was. Any other event (close,
  error, message, timer, or a call of a public method) leaves the counter as it was or,
  for a dirty close, increments it; so it never gets smaller, and a dirty close leaves it
  positive.
\<close>

theorem C8_only_open_resets:
  "reconnectCount (fire P s (OnOpen h)) = 0
   \<and> (\<not> is_open ev \<longrightarrow>
        reconnectCount (fire P s ev) =
          (if is_dirty_close ev then incr (reconnectCount s) else reconnectCount s)
        \<and> reconnectCount s \<le> reconnectCount (fire P s ev)
        \<and> (is_dirty_close ev \<longrightarrow> 0 < reconnectCount (fire P s ev)))"
  by (simp add: fire_reconnectCount incr_ge incr_pos del: fire.simps)

theorem C8_counter_witness:
  "\<not> is_open (OnClose 0 abrupt :: nat event)
   \<and> is_dirty_close (OnClose 0 abrupt :: nat event)
   \<and> reconnectCount demo_failover = 5
   \<and> reconnectCount (fire demo_platform demo_failover (OnOpen 0)) = 0
   \<and> reconnectCount (fire demo_platform demo_failover (OnClose 0 abrupt)) = 6
   \<and> 0 < reconnectCount (fire demo_platform demo_failover (OnClose 0 abrupt))"
proof -
  have h: "\<not> is_open (OnClose 0 abrupt :: nat event)"
    and d: "is_dirty_close (OnClose 0 abrupt :: nat event)"
    by (simp_all add: abrupt_def)
  have i: "incr 5 = 6" by (simp add: incr_def double_limit_def)
  show ?thesis
    using h d C8_only_open_resets [where P = demo_platform and s = demo_failover and h = 0
        and ev = "OnClose 0 abrupt"]
    by (simp add: demo_failover_fields i del: fire.simps)
qed

text \<open>
  C9. Constructing with \<^verbatim>\<open>undefined\<close> (no argument), or \<^verbatim>\<open>null\<close>, raises a TypeError;
  constructing with an options object always succeeds, and with the empty object it gives
  the defaults.
\<close>

theorem C9_constructor_needs_object:
  "constructor Undefined = Inl TypeError
   \<and> constructor Null = Inl TypeError
   \<and> (\<exists>s. constructor (Obj opts) = Inr s)
   \<and> constructor (Obj no_options) = Inr defaults"
  by (simp add: constructor_def Let_def no_options_def overwrite_def defaults_def)

text \<open>
  C10. The message handler never lets an exception out, and the state it returns differs
  from the one it found by effects only (sockets, timers and fields are the same). When
  \<^verbatim>\<open>JSON.parse\<close> throws, the SyntaxError is passed to the error log; when the text parses
  and the registered sink throws x, the sink was called once and x is passed to the error
  log. (The logging capabilities return normally, as everywhere in this theory.)
\<close>

theorem C10_message_guard:
  "fst (onmessage P d s) = None
   \<and> (\<exists>xs. snd (onmessage P d s) = s\<lparr>out := out s @ xs\<rparr>)
   \<and> raised (effects_since s (fire P s (OnMessage h d))) = []
   \<and> (JSON_parse P d = None \<longrightarrow>
        effects_since s (snd (onmessage P d s)) =
          [if errLog s then ErrLog [Caught SyntaxError] else ConsoleError [Caught SyntaxError]])
   \<and> (JSON_parse P d = Some v \<and> onMessage s = Some f \<and> f (Parsed v) = Some x \<longrightarrow>
        effects_since s (snd (onmessage P d s)) =
          [SinkCall (Parsed v), if errLog s then ErrLog [Caught x] else ConsoleError [Caught x]])"
proof (intro conjI impI)
  show "fst (onmessage P d s) = None"
    by (simp add: onmessage_cases)
  show "\<exists>xs. snd (onmessage P d s) = s\<lparr>out := out s @ xs\<rparr>"
    unfolding onmessage_cases snd_conv by (rule exI, rule refl)
  show "raised (effects_since s (fire P s (OnMessage h d))) = []"
    by (simp add: onmessage_cases settle_def effects_since_def split: option.splits)
next
  assume "JSON_parse P d = None"
  then show "effects_since s (snd (onmessage P d s)) =
          [if errLog s then ErrLog [Caught SyntaxError] else ConsoleError [Caught SyntaxError]]"
    by (simp add: onmessage_cases effects_since_def)
next
  assume "JSON_parse P d = Some v \<and> onMessage s = Some f \<and> f (Parsed v) = Some x"
  then show "effects_since s (snd (onmessage P d s)) =
          [SinkCall (Parsed v), if errLog s then ErrLog [Caught x] else ConsoleError [Caught x]]"
    by (simp add: onmessage_cases effects_since_def)
qed

theorem C10_message_guard_witness:
  "JSON_parse demo_platform ''{'' = None
   \<and> fst (onmessage demo_platform ''{'' demo_throwing) = None
   \<and> effects_since demo_throwing (snd (onmessage demo_platform ''{'' demo_throwing)) =
        [ConsoleError [Caught SyntaxError]]
   \<and> JSON_parse demo_platform ''7'' = Some 7
   \<and> onMessage demo_throwing = Some throwing_sink
   \<and> throwing_sink (Parsed 7) = Some (Thrown ''boom'')
   \<and> fst (onmessage demo_platform ''7'' demo_throwing) = None
   \<and> effects_since demo_throwing (snd (onmessage demo_platform ''7'' demo_throwing)) =
        [SinkCall (Parsed 7), ConsoleError [Caught (Thrown ''boom'')]]"
proof -
  have a: "JSON_parse demo_platform ''{'' = None"
    by (simp add: demo_platform_def)
  have b: "JSON_parse demo_platform ''7'' = Some 7 \<and> onMessage demo_throwing = Some throwing_sink
     \<and> throwing_sink (Parsed 7) = Some (Thrown ''boom'')"
    by (simp add: demo_platform_def demo_throwing_def throwing_sink_def)
  have e: "\<not> errLog demo_throwing"
    by (simp add: demo_throwing_def demo_open_def demo_new_def defaults_def)
  show ?thesis
    using a b e
      C10_message_guard [where P = demo_platform and d = "''{''" and s = demo_throwing and h = 0
        and v = 7 and f = throwing_sink and x = "Thrown ''boom''"]
      C10_message_guard [where P = demo_platform and d = "''7''" and s = demo_throwing and h = 0
        and v = 7 and f = throwing_sink and x = "Thrown ''boom''"]
    by (simp del: fire.simps)
qed

end
